theory Spec2Isabelle
  imports Main
begin

section \<open>The storage layer (db.py)\<close>

text \<open>
  The four tables of \<^verbatim>\<open>create_tables\<close>. \<^verbatim>\<open>users\<close>, \<^verbatim>\<open>search_queue\<close> and
  \<^verbatim>\<open>banned_users\<close> have \<^verbatim>\<open>user_id\<close> as primary key; \<^verbatim>\<open>active_chats\<close> has no key and
  no constraint, so it is a list of rows in which a pair may repeat and an id may occur in
  several rows.

  The queue and the chats are lists of row versions in the order in which they were
  written. A new row goes to the end, and so does the row that the upsert of
  \<^verbatim>\<open>add_to_queue\<close> rewrites: \<^verbatim>\<open>ON CONFLICT DO UPDATE\<close> writes a new version of the row,
  which a scan of the table meets after the rows written in between.

  \<^verbatim>\<open>find_match\<close> takes one row of its query (\<^verbatim>\<open>LIMIT 1\<close>) without an \<^verbatim>\<open>ORDER BY\<close>, so
  the database may return any row that qualifies; which one depends on the plan it runs,
  in particular on whether the query is driven by \<^verbatim>\<open>search_queue\<close> or by the subquery on
  \<^verbatim>\<open>users\<close>. That decision is an input of the model, the argument \<open>choice\<close>: the index of
  the returned row among the qualifying ones. With choice 0 the queue is scanned in the
  order written. \<^verbatim>\<open>active_chats\<close> is only ever inserted into and deleted from, and
  \<^verbatim>\<open>get_partner\<close> reads it in the order written.

  User ids are integers (\<^verbatim>\<open>BIGINT\<close>; the 64-bit bound is not represented). Text columns are
  strings, \<^verbatim>\<open>NULL\<close> is \<open>None\<close>. A timestamp is the number of microseconds since
  \<^verbatim>\<open>datetime.min\<close>, the resolution of both Python's \<^verbatim>\<open>datetime\<close> and the \<^verbatim>\<open>TIMESTAMP\<close>
  column.
\<close>

type_synonym user_id = int

type_synonym datetime = int

record user_row =
  gender :: "string option"
  country :: "string option"
  age :: "int option"
  is_premium :: bool
  vip_expiry :: "datetime option"
  current_order_id :: "string option"

record database =
  users :: "user_id \<rightharpoonup> user_row"
  search_queue :: "(user_id \<times> string) list"
  active_chats :: "(user_id \<times> user_id) list"
  banned_users :: "user_id set"

datatype error = OverflowError | AttributeError

subsection \<open>Python values\<close>

text \<open>
  \<^verbatim>\<open>if partner:\<close>, \<^verbatim>\<open>if match_id:\<close> and \<^verbatim>\<open>if not partner_id:\<close> test an optional id for
  truth: \<^verbatim>\<open>None\<close> and \<^verbatim>\<open>0\<close> are false.
\<close>

definition truthy_id :: "user_id option \<Rightarrow> bool" where
  "truthy_id x = (case x of None \<Rightarrow> False | Some i \<Rightarrow> i \<noteq> 0)"

definition truthy_str :: "string option \<Rightarrow> bool" where
  "truthy_str x = (case x of None \<Rightarrow> False | Some s \<Rightarrow> s \<noteq> [])"

definition truthy_int :: "int option \<Rightarrow> bool" where
  "truthy_int x = (case x of None \<Rightarrow> False | Some i \<Rightarrow> i \<noteq> 0)"

text \<open>
  \<^verbatim>\<open>timedelta(days=d)\<close> raises \<^verbatim>\<open>OverflowError\<close> unless \<open>\<bar>d\<bar> \<le> 999999999\<close>, and
  \<^verbatim>\<open>datetime + timedelta\<close> raises it unless the sum is a date of the years 1 to 9999
  (\<^verbatim>\<open>datetime.max\<close> is 9999-12-31 23:59:59.999999, ordinal day 3652059).
  \<^verbatim>\<open>timedelta.days\<close> is the floor of the difference in days.
\<close>

definition us_per_day :: int where
  "us_per_day = 86400000000"

definition datetime_max :: datetime where
  "datetime_max = 3652059 * 86400000000 - 1"

definition valid_datetime :: "datetime \<Rightarrow> bool" where
  "valid_datetime t = (0 \<le> t \<and> t \<le> datetime_max)"

definition add_days :: "datetime \<Rightarrow> int \<Rightarrow> error + datetime" where
  "add_days t d =
     (if 999999999 < \<bar>d\<bar> then Inl OverflowError
      else if valid_datetime (t + d * us_per_day) then Inr (t + d * us_per_day)
      else Inl OverflowError)"

definition delta_days :: "datetime \<Rightarrow> datetime \<Rightarrow> int" where
  "delta_days a b = (a - b) div us_per_day"

subsection \<open>User management\<close>

definition new_row :: user_row where
  "new_row = \<lparr>gender = None, country = None, age = None, is_premium = False,
              vip_expiry = None, current_order_id = None\<rparr>"

definition add_user :: "database \<Rightarrow> user_id \<Rightarrow> database" where
  "add_user s user_id =
     (case users s user_id of
        None \<Rightarrow> s\<lparr>users := (users s)(user_id \<mapsto> new_row)\<rparr>
      | Some r \<Rightarrow> s)"

definition get_user :: "database \<Rightarrow> user_id \<Rightarrow> user_row option" where
  "get_user s user_id = users s user_id"

definition set_gender :: "database \<Rightarrow> user_id \<Rightarrow> string option \<Rightarrow> database" where
  "set_gender s user_id g =
     (case users s user_id of
        None \<Rightarrow> s
      | Some r \<Rightarrow> s\<lparr>users := (users s)(user_id \<mapsto> r\<lparr>gender := g\<rparr>)\<rparr>)"

definition set_country :: "database \<Rightarrow> user_id \<Rightarrow> string option \<Rightarrow> database" where
  "set_country s user_id c =
     (case users s user_id of
        None \<Rightarrow> s
      | Some r \<Rightarrow> s\<lparr>users := (users s)(user_id \<mapsto> r\<lparr>country := c\<rparr>)\<rparr>)"

definition set_age :: "database \<Rightarrow> user_id \<Rightarrow> int option \<Rightarrow> database" where
  "set_age s user_id a =
     (case users s user_id of
        None \<Rightarrow> s
      | Some r \<Rightarrow> s\<lparr>users := (users s)(user_id \<mapsto> r\<lparr>age := a\<rparr>)\<rparr>)"

subsection \<open>Premium\<close>

definition check_premium :: "database \<Rightarrow> user_id \<Rightarrow> datetime \<Rightarrow> bool" where
  "check_premium s user_id now =
     (case users s user_id of
        None \<Rightarrow> False
      | Some r \<Rightarrow>
          if is_premium r then True
          else (case vip_expiry r of None \<Rightarrow> False | Some e \<Rightarrow> now < e))"

text \<open>
  \<^verbatim>\<open>make_premium\<close> computes \<^verbatim>\<open>datetime.now() + timedelta(days=days)\<close> and then upserts:
  a missing row is inserted with the other columns at their defaults, an existing row gets
  the new expiry and a \<^verbatim>\<open>NULL\<close> order id. \<open>now\<close> is the clock reading of the call. When
  the date arithmetic raises, nothing has been written.
\<close>

definition make_premium ::
  "database \<Rightarrow> user_id \<Rightarrow> int \<Rightarrow> datetime \<Rightarrow> error + database" where
  "make_premium s user_id days now =
     (case add_days now days of
        Inl e \<Rightarrow> Inl e
      | Inr expiry_date \<Rightarrow>
          Inr (s\<lparr>users := (users s)(user_id \<mapsto>
                 (case users s user_id of
                    None \<Rightarrow> new_row\<lparr>vip_expiry := Some expiry_date\<rparr>
                  | Some r \<Rightarrow> r\<lparr>vip_expiry := Some expiry_date,
                               current_order_id := None\<rparr>))\<rparr>))"

subsection \<open>Chat and ban logic\<close>

definition ban_user :: "database \<Rightarrow> user_id \<Rightarrow> database" where
  "ban_user s user_id =
     s\<lparr>banned_users := insert user_id (banned_users s),
       users := (users s)(user_id := None),
       search_queue := filter (\<lambda>row. fst row \<noteq> user_id) (search_queue s),
       active_chats :=
         filter (\<lambda>row. \<not> (fst row = user_id \<or> snd row = user_id)) (active_chats s)\<rparr>"

definition unban_user :: "database \<Rightarrow> user_id \<Rightarrow> database" where
  "unban_user s user_id = s\<lparr>banned_users := banned_users s - {user_id}\<rparr>"

definition is_banned :: "database \<Rightarrow> user_id \<Rightarrow> bool" where
  "is_banned s user_id = (user_id \<in> banned_users s)"

definition is_searching :: "database \<Rightarrow> user_id \<Rightarrow> bool" where
  "is_searching s user_id = (user_id \<in> set (map fst (search_queue s)))"

definition add_to_queue :: "database \<Rightarrow> user_id \<Rightarrow> string \<Rightarrow> database" where
  "add_to_queue s user_id looking_for =
     s\<lparr>search_queue :=
         filter (\<lambda>row. fst row \<noteq> user_id) (search_queue s) @ [(user_id, looking_for)]\<rparr>"

definition remove_from_queue :: "database \<Rightarrow> user_id \<Rightarrow> database" where
  "remove_from_queue s user_id =
     s\<lparr>search_queue := filter (\<lambda>row. fst row \<noteq> user_id) (search_queue s)\<rparr>"

text \<open>
  \<^verbatim>\<open>find_match\<close> runs three statements on one connection. No transaction is opened
  (\<^verbatim>\<open>pool.acquire()\<close> only hands out the connection), so each statement is committed on
  its own and the row lock of \<^verbatim>\<open>FOR UPDATE SKIP LOCKED\<close> ends with the \<^verbatim>\<open>SELECT\<close>: no
  row is locked when the next statement starts.

  \<open>candidate\<close> is the \<^verbatim>\<open>WHERE\<close> clause: another id, and for a filter other than
  \<^verbatim>\<open>'any'\<close> a profile row whose gender equals the filter. \<open>candidates\<close> are the rows
  of the queue that satisfy it, and \<open>select_candidate\<close> is the one row that
  \<^verbatim>\<open>fetchrow\<close> returns: none when no row qualifies, else the row that the database
  chooses. No other connection holds a row lock, so \<^verbatim>\<open>SKIP LOCKED\<close> skips nothing.
\<close>

definition candidate :: "database \<Rightarrow> user_id \<Rightarrow> string \<Rightarrow> user_id \<times> string \<Rightarrow> bool" where
  "candidate s user_id looking_for row =
     (fst row \<noteq> user_id \<and>
      (if looking_for = ''any'' then True
       else (case users s (fst row) of
               None \<Rightarrow> False
             | Some r \<Rightarrow> gender r = Some looking_for)))"

definition candidates :: "database \<Rightarrow> user_id \<Rightarrow> string \<Rightarrow> (user_id \<times> string) list" where
  "candidates s user_id looking_for =
     filter (candidate s user_id looking_for) (search_queue s)"

definition select_candidate ::
  "database \<Rightarrow> user_id \<Rightarrow> string \<Rightarrow> nat \<Rightarrow> (user_id \<times> string) option" where
  "select_candidate s user_id looking_for choice =
     (if candidates s user_id looking_for = [] then None
      else Some (candidates s user_id looking_for !
                   (choice mod length (candidates s user_id looking_for))))"

definition insert_active_chat :: "database \<Rightarrow> user_id \<Rightarrow> user_id \<Rightarrow> database" where
  "insert_active_chat s user_1 user_2 =
     s\<lparr>active_chats := active_chats s @ [(user_1, user_2)]\<rparr>"

definition delete_queue_pair :: "database \<Rightarrow> user_id \<Rightarrow> user_id \<Rightarrow> database" where
  "delete_queue_pair s a b =
     s\<lparr>search_queue := filter (\<lambda>row. \<not> (fst row = a \<or> fst row = b)) (search_queue s)\<rparr>"

definition find_match ::
  "database \<Rightarrow> user_id \<Rightarrow> string \<Rightarrow> nat \<Rightarrow> user_id option \<times> database" where
  "find_match s user_id looking_for choice =
     (case select_candidate s user_id looking_for choice of
        None \<Rightarrow> (None, s)
      | Some row \<Rightarrow>
          (Some (fst row),
           delete_queue_pair (insert_active_chat s user_id (fst row)) user_id (fst row)))"

text \<open>
  The states of the database that \<^verbatim>\<open>find_match\<close> commits, in order: one after the
  \<^verbatim>\<open>INSERT\<close>, one after the \<^verbatim>\<open>DELETE\<close>; none when no candidate is found.
\<close>

definition find_match_commits ::
  "database \<Rightarrow> user_id \<Rightarrow> string \<Rightarrow> nat \<Rightarrow> database list" where
  "find_match_commits s user_id looking_for choice =
     (case select_candidate s user_id looking_for choice of
        None \<Rightarrow> []
      | Some row \<Rightarrow>
          [insert_active_chat s user_id (fst row),
           delete_queue_pair (insert_active_chat s user_id (fst row)) user_id (fst row)])"

definition get_partner :: "database \<Rightarrow> user_id \<Rightarrow> user_id option" where
  "get_partner s user_id =
     (case List.find (\<lambda>row. fst row = user_id \<or> snd row = user_id) (active_chats s) of
        None \<Rightarrow> None
      | Some row \<Rightarrow> Some (if fst row = user_id then snd row else fst row))"

definition disconnect :: "database \<Rightarrow> user_id \<Rightarrow> user_id option \<times> database" where
  "disconnect s user_id =
     (case get_partner s user_id of
        None \<Rightarrow> (None, s)
      | Some partner \<Rightarrow>
          if partner \<noteq> 0
          then (Some partner,
                s\<lparr>active_chats :=
                    filter (\<lambda>row. \<not> (fst row = user_id \<or> snd row = user_id \<or>
                                     fst row = partner \<or> snd row = partner))
                      (active_chats s)\<rparr>)
          else (Some partner, s))"

definition connect_users :: "database \<Rightarrow> user_id \<Rightarrow> user_id \<Rightarrow> database" where
  "connect_users s user1_id user2_id =
     insert_active_chat (delete_queue_pair s user1_id user2_id) user1_id user2_id"

section \<open>The bot (main.py)\<close>

text \<open>
  The configuration read from the environment, and the process-local dictionaries that
  the handlers share. A value of \<^verbatim>\<open>user_states\<close> is one of the strings
  \<^verbatim>\<open>"WAITING_MANUAL_LOC"\<close>, \<^verbatim>\<open>"WAITING_AGE"\<close>, \<^verbatim>\<open>"WAITING_REPORT_REASON"\<close> and
  \<^verbatim>\<open>f"WAITING_PAYMENT_{days}"\<close> (no other value is ever stored), so the dictionary holds
  a tagged value: \<^verbatim>\<open>"WAITING_PAYMENT_" in state\<close> holds for the last form only, and
  \<^verbatim>\<open>int(state.split("_")[-1])\<close> is its day count.

  Handlers are modelled by what they do to this state and by the calls they make on the
  messaging platform, in order (\<open>action\<close>); message texts are not modelled. Whether the
  platform call that a handler guards with \<^verbatim>\<open>try\<close> succeeds is an input (\<open>sent\<close>).
\<close>

record config =
  ADMIN_ID :: user_id
  LOG_MEDIA :: int

datatype ustate =
    WAITING_MANUAL_LOC
  | WAITING_AGE
  | WAITING_REPORT_REASON
  | WAITING_PAYMENT int

record session_meta =
  start_time :: datetime
  session_id :: string

record bot =
  db :: database
  user_states :: "user_id \<rightharpoonup> ustate"
  active_sessions :: "user_id \<rightharpoonup> session_meta"
  user_preferences :: "user_id \<rightharpoonup> string"

datatype media = Photo | Video | Voice | Audio | VideoNote | Document | Sticker

datatype action =
    SendPhotoToAdmin user_id int
  | ReplyScreenshotReceived
  | ReplyMediaLocked
  | CopyMessage user_id
  | ReplyPartnerDisconnected
  | SendMediaLog media user_id user_id
  | SendText user_id string
  | ReplyLinksProhibited
  | ReplySearching
  | ReplyNotInChat

subsection \<open>Matching\<close>

text \<open>
  \<^verbatim>\<open>send_match_messages\<close> first records the start time and the session id for both
  users; everything after that only reads the database and sends messages.
\<close>

definition send_match_messages ::
  "bot \<Rightarrow> user_id \<Rightarrow> user_id \<Rightarrow> datetime \<Rightarrow> string \<Rightarrow> bot" where
  "send_match_messages b user1_id user2_id now sid =
     b\<lparr>active_sessions :=
         ((active_sessions b)
            (user1_id \<mapsto> \<lparr>start_time = now, session_id = sid\<rparr>))
            (user2_id \<mapsto> \<lparr>start_time = now, session_id = sid\<rparr>)\<rparr>"

text \<open>
  The search itself is written twice in main.py with the same statements: in the chat
  block of \<^verbatim>\<open>handle_text\<close> and in the \<^verbatim>\<open>find_new_partner\<close> branch of
  \<^verbatim>\<open>handle_report_buttons\<close>. The preference falls back to \<^verbatim>\<open>'any'\<close> for a user who is
  neither premium nor the admin.
\<close>

definition search_target :: "config \<Rightarrow> bot \<Rightarrow> user_id \<Rightarrow> datetime \<Rightarrow> string" where
  "search_target cfg b user_id now =
     (let target = (case user_preferences b user_id of None \<Rightarrow> ''any'' | Some t \<Rightarrow> t);
          is_vip = (check_premium (db b) user_id now \<or> user_id = ADMIN_ID cfg)
      in if target \<noteq> ''any'' \<and> \<not> is_vip then ''any'' else target)"

definition start_search ::
  "config \<Rightarrow> bot \<Rightarrow> user_id \<Rightarrow> datetime \<Rightarrow> string \<Rightarrow> nat \<Rightarrow> bot" where
  "start_search cfg b user_id now sid choice =
     (let target = search_target cfg b user_id now
      in case find_match (add_to_queue (db b) user_id target) user_id target choice of
           (None, s) \<Rightarrow> b\<lparr>db := s\<rparr>
         | (Some match_id, s) \<Rightarrow>
             if match_id \<noteq> 0
             then send_match_messages (b\<lparr>db := s\<rparr>) user_id match_id now sid
             else b\<lparr>db := s\<rparr>)"

text \<open>The chat block of \<^verbatim>\<open>handle_text\<close>: a user who has a partner is refused.\<close>

definition chat_logic ::
  "config \<Rightarrow> bot \<Rightarrow> user_id \<Rightarrow> datetime \<Rightarrow> string \<Rightarrow> nat \<Rightarrow> bot" where
  "chat_logic cfg b user_id now sid choice =
     (if truthy_id (get_partner (db b) user_id) then b
      else start_search cfg b user_id now sid choice)"

text \<open>
  \<^verbatim>\<open>handle_report_buttons\<close> on the callback \<^verbatim>\<open>find_new_partner\<close>: the search with no
  test before it.
\<close>

definition find_new_partner ::
  "config \<Rightarrow> bot \<Rightarrow> user_id \<Rightarrow> datetime \<Rightarrow> string \<Rightarrow> nat \<Rightarrow> bot" where
  "find_new_partner cfg b user_id now sid choice = start_search cfg b user_id now sid choice"

definition is_registered :: "user_row \<Rightarrow> bool" where
  "is_registered r = (truthy_str (gender r) \<and> truthy_int (age r) \<and> truthy_str (country r))"

definition check_registration :: "bot \<Rightarrow> user_id \<Rightarrow> error + bot" where
  "check_registration b user_id =
     (case get_user (db b) user_id of
        None \<Rightarrow> Inl AttributeError
      | Some r \<Rightarrow>
          if \<not> truthy_str (gender r) then Inr b
          else if \<not> truthy_int (age r)
          then Inr (b\<lparr>user_states := (user_states b)(user_id \<mapsto> WAITING_AGE)\<rparr>)
          else if \<not> truthy_str (country r) then Inr b
          else Inr (b\<lparr>user_states := (user_states b)(user_id := None)\<rparr>))"

text \<open>
  \<^verbatim>\<open>handle_text\<close> on the command \<^verbatim>\<open>/chat\<close> in a private chat. The text is none of the
  exit, cancel, report and menu texts, so the blocks that decide are: the ban test; a
  pending report reason (the text is taken as the reason, the state is dropped); a pending
  age (the text is no number); a pending manual location (the text is stored as the
  location); the registration test, which raises when the user has no profile row; and
  the chat block.
\<close>

definition handle_text_chat ::
  "config \<Rightarrow> bot \<Rightarrow> user_id \<Rightarrow> datetime \<Rightarrow> string \<Rightarrow> nat \<Rightarrow> error + bot" where
  "handle_text_chat cfg b user_id now sid choice =
     (if is_banned (db b) user_id then Inr b
      else case user_states b user_id of
        Some WAITING_REPORT_REASON \<Rightarrow>
          Inr (b\<lparr>user_states := (user_states b)(user_id := None)\<rparr>)
      | Some WAITING_AGE \<Rightarrow> Inr b
      | Some WAITING_MANUAL_LOC \<Rightarrow>
          Inr (b\<lparr>db := set_country (db b) user_id (Some ''/chat''),
                 user_states := (user_states b)(user_id := None)\<rparr>)
      | _ \<Rightarrow>
          (case get_user (db b) user_id of
             None \<Rightarrow> Inl AttributeError
           | Some r \<Rightarrow>
               if is_registered r then Inr (chat_logic cfg b user_id now sid choice)
               else check_registration b user_id))"

text \<open>
  \<^verbatim>\<open>handle_text\<close> on the command \<^verbatim>\<open>/exit\<close>: a pending state is dropped; a user who is
  neither searching nor in a chat is only told so; otherwise \<^verbatim>\<open>disconnect\<close>,
  \<^verbatim>\<open>remove_from_queue\<close>, and the session start times of both sides are forgotten. The
  messages that follow carry the \<^verbatim>\<open>find_new_partner\<close> button to both sides.
\<close>

definition handle_text_exit :: "bot \<Rightarrow> user_id \<Rightarrow> bot" where
  "handle_text_exit b user_id =
     (if is_banned (db b) user_id then b
      else
        let b1 = (case user_states b user_id of
                    None \<Rightarrow> b
                  | Some st \<Rightarrow> b\<lparr>user_states := (user_states b)(user_id := None)\<rparr>)
        in if \<not> is_searching (db b1) user_id \<and> \<not> truthy_id (get_partner (db b1) user_id)
           then b1
           else case disconnect (db b1) user_id of
             (partner_id, s) \<Rightarrow>
               b1\<lparr>db := remove_from_queue s user_id,
                   active_sessions :=
                     (case partner_id of
                        None \<Rightarrow> (active_sessions b1)(user_id := None)
                      | Some p \<Rightarrow> ((active_sessions b1)(user_id := None))(p := None))\<rparr>)"

text \<open>
  Updates are handled one after the other; a handler that raises leaves the state as it
  was when it raised, which for \<^verbatim>\<open>/chat\<close> is the state before the update. An update
  that searches carries, besides the sender, what the handler takes from outside: the
  clock reading, the session id it draws, and the choice of the database.
\<close>

datatype event =
    ChatCommand user_id datetime string nat
  | ExitCommand user_id
  | FindNewPartner user_id datetime string nat

fun handle_event :: "config \<Rightarrow> bot \<Rightarrow> event \<Rightarrow> bot" where
  "handle_event cfg b (ChatCommand u now sid choice) =
     (case handle_text_chat cfg b u now sid choice of Inl e \<Rightarrow> b | Inr b' \<Rightarrow> b')"
| "handle_event cfg b (ExitCommand u) = handle_text_exit b u"
| "handle_event cfg b (FindNewPartner u now sid choice) =
     find_new_partner cfg b u now sid choice"

definition run :: "config \<Rightarrow> bot \<Rightarrow> event list \<Rightarrow> bot" where
  "run cfg b evs = foldl (handle_event cfg) b evs"

text \<open>
  A restart of the process: the dictionaries are created empty when main.py is loaded,
  the database is kept.
\<close>

definition restart :: "bot \<Rightarrow> bot" where
  "restart b = \<lparr>db = db b, user_states = Map.empty, active_sessions = Map.empty,
                 user_preferences = Map.empty\<rparr>"

subsection \<open>Media\<close>

definition days_to_add :: "ustate option \<Rightarrow> int" where
  "days_to_add st = (case st of Some (WAITING_PAYMENT d) \<Rightarrow> d | _ \<Rightarrow> 30)"

text \<open>Section 1 of \<^verbatim>\<open>handle_media\<close>: the sender has no partner.\<close>

definition payment_proof :: "bot \<Rightarrow> user_id \<Rightarrow> media \<Rightarrow> bool \<Rightarrow> action list \<times> bot" where
  "payment_proof b user_id m sent =
     (if m = Photo
      then (SendPhotoToAdmin user_id (days_to_add (user_states b user_id)) #
              (if sent then [ReplyScreenshotReceived] else []),
            b\<lparr>user_states := (user_states b)(user_id := None)\<rparr>)
      else ([], b))"

text \<open>
  Section 2: the sender has a partner. \<^verbatim>\<open>elapsed\<close> is the difference of two timestamps in
  seconds, a float obtained by one correctly rounded division of the microseconds by
  \<open>10\<^sup>6\<close>; it is below 120 exactly when the difference is below 120000000 microseconds.
\<close>

definition media_locked :: "bot \<Rightarrow> user_id \<Rightarrow> datetime \<Rightarrow> bool" where
  "media_locked b user_id now =
     (case active_sessions b user_id of
        None \<Rightarrow> False
      | Some session \<Rightarrow> now - start_time session < 120000000)"

definition relay_media ::
  "config \<Rightarrow> bot \<Rightarrow> user_id \<Rightarrow> user_id \<Rightarrow> media \<Rightarrow> datetime \<Rightarrow> bool \<Rightarrow> action list \<times> bot" where
  "relay_media cfg b user_id partner_id m now sent =
     (if media_locked b user_id now then ([ReplyMediaLocked], b)
      else if \<not> sent
      then ([CopyMessage partner_id, ReplyPartnerDisconnected],
            b\<lparr>db := snd (disconnect (db b) user_id)\<rparr>)
      else (CopyMessage partner_id #
              (if LOG_MEDIA cfg \<noteq> 0 \<and> m \<noteq> Sticker
               then [SendMediaLog m user_id partner_id] else []),
            b))"

definition handle_media ::
  "config \<Rightarrow> bot \<Rightarrow> user_id \<Rightarrow> media \<Rightarrow> datetime \<Rightarrow> bool \<Rightarrow> action list \<times> bot" where
  "handle_media cfg b user_id m now sent =
     (if is_banned (db b) user_id then ([], b)
      else case get_partner (db b) user_id of
        None \<Rightarrow> payment_proof b user_id m sent
      | Some partner_id \<Rightarrow>
          if partner_id = 0 then payment_proof b user_id m sent
          else relay_media cfg b user_id partner_id m now sent)"

subsection \<open>Text relay\<close>

text \<open>
  Block 9 and 10 of \<^verbatim>\<open>handle_text\<close>, reached by a text that no earlier block has handled.
  A text is its UTF-8 bytes; the link pattern is ASCII and is searched ignoring case.
\<close>

fun starts_with :: "string \<Rightarrow> string \<Rightarrow> bool" where
  "starts_with [] s = True"
| "starts_with (p # ps) [] = False"
| "starts_with (p # ps) (c # cs) = (p = c \<and> starts_with ps cs)"

fun contains :: "string \<Rightarrow> string \<Rightarrow> bool" where
  "contains p [] = (p = [])"
| "contains p (c # cs) = (starts_with p (c # cs) \<or> contains p cs)"

definition lower :: "char \<Rightarrow> char" where
  "lower c =
     (case map_of (zip ''ABCDEFGHIJKLMNOPQRSTUVWXYZ'' ''abcdefghijklmnopqrstuvwxyz'') c of
        None \<Rightarrow> c
      | Some l \<Rightarrow> l)"

definition has_link :: "string \<Rightarrow> bool" where
  "has_link txt =
     list_ex (\<lambda>p. contains p (map lower txt)) [''http'', ''https'', ''t.me'', ''www'', ''.com'']"

definition blocked_words :: "string list" where
  "blocked_words =
     [[CHR 0xE2, CHR 0x9D, CHR 0x8C] @ '' Exit Chat'',
      [CHR 0xF0, CHR 0x9F, CHR 0x9A, CHR 0xA8] @ '' Report Partner'',
      [CHR 0xF0, CHR 0x9F, CHR 0x94, CHR 0x99] @ '' Back'',
      [CHR 0xE2, CHR 0x9A, CHR 0x99, CHR 0xEF, CHR 0xB8, CHR 0x8F] @ '' Settings'',
      [CHR 0xF0, CHR 0x9F, CHR 0x92, CHR 0xAC] @ '' Chat'',
      [CHR 0xF0, CHR 0x9F, CHR 0x92, CHR 0x8E] @ '' Premium'',
      [CHR 0xE2, CHR 0x9D, CHR 0x93] @ '' Help'',
      [CHR 0xE2, CHR 0x84, CHR 0xB9, CHR 0xEF, CHR 0xB8, CHR 0x8F] @ '' About'',
      [CHR 0xF0, CHR 0x9F, CHR 0x94, CHR 0x84] @ '' Re-Chat'',
      [CHR 0xE2, CHR 0x9D, CHR 0xA4, CHR 0xEF, CHR 0xB8, CHR 0x8F] @ '' Preferences'',
      [CHR 0xF0, CHR 0x9F, CHR 0x8E, CHR 0xB2] @ '' Random'',
      [CHR 0xF0, CHR 0x9F, CHR 0x91, CHR 0xA9] @ '' Girls (VIP)'',
      [CHR 0xF0, CHR 0x9F, CHR 0x91, CHR 0xA8] @ '' Boys (VIP)'']"

definition idle_reply :: "bot \<Rightarrow> user_id \<Rightarrow> action list \<times> bot" where
  "idle_reply b user_id =
     (if is_searching (db b) user_id then ([ReplySearching], b) else ([ReplyNotInChat], b))"

definition relay_to ::
  "bot \<Rightarrow> user_id \<Rightarrow> user_id \<Rightarrow> string \<Rightarrow> bool \<Rightarrow> action list \<times> bot" where
  "relay_to b user_id partner_id txt sent =
     (if has_link txt then ([ReplyLinksProhibited], b)
      else if starts_with ''/'' txt \<or> txt \<in> set blocked_words then ([], b)
      else if sent then ([SendText partner_id txt], b)
      else ([SendText partner_id txt, ReplyPartnerDisconnected],
            b\<lparr>db := snd (disconnect (db b) user_id)\<rparr>))"

definition relay_text :: "bot \<Rightarrow> user_id \<Rightarrow> string \<Rightarrow> bool \<Rightarrow> action list \<times> bot" where
  "relay_text b user_id txt sent =
     (case get_partner (db b) user_id of
        None \<Rightarrow> idle_reply b user_id
      | Some partner_id \<Rightarrow>
          if partner_id = 0 then idle_reply b user_id
          else relay_to b user_id partner_id txt sent)"

subsection \<open>Payments and admin commands\<close>

text \<open>
  The \<^verbatim>\<open>approve_\<close> branch of \<^verbatim>\<open>handle_payment_selection\<close> reads the clock three times:
  for the test whether the expiry is in the future (\<open>t_check\<close>), for the remaining days
  (\<open>t_delta\<close>), and inside \<^verbatim>\<open>make_premium\<close> (\<open>t_write\<close>). \<^verbatim>\<open>user_data.get\<close> raises when
  the target has no profile row.
\<close>

definition stacked_days :: "user_row \<Rightarrow> int \<Rightarrow> datetime \<Rightarrow> datetime \<Rightarrow> int" where
  "stacked_days r d t_check t_delta =
     (case vip_expiry r of
        None \<Rightarrow> d
      | Some current_expiry \<Rightarrow>
          if t_check < current_expiry
          then (delta_days current_expiry t_delta + 1) + d
          else d)"

definition handle_payment_approve ::
  "database \<Rightarrow> user_id \<Rightarrow> int \<Rightarrow> datetime \<Rightarrow> datetime \<Rightarrow> datetime \<Rightarrow> error + database" where
  "handle_payment_approve s target_id d t_check t_delta t_write =
     (case get_user s target_id of
        None \<Rightarrow> Inl AttributeError
      | Some r \<Rightarrow> make_premium s target_id (stacked_days r d t_check t_delta) t_write)"

text \<open>
  \<^verbatim>\<open>admin_op\<close> after its arguments are parsed: the command is one of the four that the
  handler is registered for, \<open>uid\<close> is \<^verbatim>\<open>int(parts[1])\<close> and \<open>days_arg\<close> is
  \<^verbatim>\<open>int(parts[2])\<close> when a third word was typed. An exception of the database call is
  caught and reported; the database is then as before. Replies are not modelled.
\<close>

datatype admin_cmd = Ban | Unban | AddVip | RemoveVip

definition admin_op ::
  "config \<Rightarrow> database \<Rightarrow> user_id \<Rightarrow> admin_cmd \<Rightarrow> user_id \<Rightarrow> int option \<Rightarrow> datetime \<Rightarrow> database" where
  "admin_op cfg s sender cmd uid days_arg now =
     (if sender \<noteq> ADMIN_ID cfg then s
      else case cmd of
        Ban \<Rightarrow> ban_user s uid
      | Unban \<Rightarrow> unban_user s uid
      | AddVip \<Rightarrow>
          (case make_premium s uid (case days_arg of None \<Rightarrow> 30 | Some d \<Rightarrow> d) now of
             Inl e \<Rightarrow> s
           | Inr s' \<Rightarrow> s')
      | RemoveVip \<Rightarrow>
          (case make_premium s uid 0 now of Inl e \<Rightarrow> s | Inr s' \<Rightarrow> s'))"

section \<open>Notions used in the statements\<close>

text \<open>Whole days rounded up, as the specification's \<open>ceil\<close>.\<close>

definition ceil_days :: "int \<Rightarrow> int" where
  "ceil_days x = - ((- x) div us_per_day)"

definition expiry_of :: "database \<Rightarrow> user_id \<Rightarrow> datetime option" where
  "expiry_of s user_id = (case users s user_id of None \<Rightarrow> None | Some r \<Rightarrow> vip_expiry r)"

definition premium_flag :: "database \<Rightarrow> user_id \<Rightarrow> bool" where
  "premium_flag s user_id = (case users s user_id of None \<Rightarrow> False | Some r \<Rightarrow> is_premium r)"

definition gender_of :: "database \<Rightarrow> user_id \<Rightarrow> string option" where
  "gender_of s user_id = (case users s user_id of None \<Rightarrow> None | Some r \<Rightarrow> gender r)"

text \<open>
  The ids that occur in the session rows, row by row. A database is \<open>paired\<close> when no id
  occurs twice in them (each id is in at most one session, and never with itself), no
  queued user is in a session, and the id 0, which Python takes for false, is in neither
  table.
\<close>

definition members :: "(user_id \<times> user_id) list \<Rightarrow> user_id list" where
  "members cs = concat (map (\<lambda>row. [fst row, snd row]) cs)"

definition paired :: "database \<Rightarrow> bool" where
  "paired s =
     (distinct (members (active_chats s)) \<and>
      set (members (active_chats s)) \<inter> fst ` set (search_queue s) = {} \<and>
      0 \<notin> set (members (active_chats s)) \<and>
      0 \<notin> fst ` set (search_queue s))"

text \<open>The updates that test for a running chat before they search or that end one.\<close>

fun guarded :: "event \<Rightarrow> bool" where
  "guarded (ChatCommand u now sid choice) = (u \<noteq> 0)"
| "guarded (ExitCommand u) = True"
| "guarded (FindNewPartner u now sid choice) = False"

section \<open>Scenarios\<close>

text \<open>
  Concrete states for the examples below. Three registered users, none of them premium,
  and nobody searching or chatting; the clock reading is a day of November 2026.
\<close>

definition demo_cfg :: config where
  "demo_cfg = \<lparr>ADMIN_ID = 1000, LOG_MEDIA = 0\<rparr>"

definition demo_now :: datetime where
  "demo_now = 63930000000000000"

definition profile :: "string \<Rightarrow> user_row" where
  "profile g = \<lparr>gender = Some g, country = Some ''India'', age = Some 25, is_premium = False,
                 vip_expiry = None, current_order_id = None\<rparr>"

definition idle_db :: database where
  "idle_db = \<lparr>users = [1 \<mapsto> profile ''male'', 2 \<mapsto> profile ''female'', 3 \<mapsto> profile ''female''],
              search_queue = [], active_chats = [], banned_users = {}\<rparr>"

definition idle_bot :: bot where
  "idle_bot = \<lparr>db = idle_db, user_states = Map.empty, active_sessions = Map.empty,
               user_preferences = Map.empty\<rparr>"

text \<open>User 2 waits in the queue and user 1 has just been added to it.\<close>

definition waiting_db :: database where
  "waiting_db = add_to_queue (add_to_queue idle_db 2 ''any'') 1 ''any''"

text \<open>
  User A (1, male, filter \<^verbatim>\<open>any\<close>) and user B (2, female, filter \<^verbatim>\<open>female\<close>) are in the
  queue.
\<close>

definition scenario_db :: database where
  "scenario_db = add_to_queue (add_to_queue idle_db 1 ''any'') 2 ''female''"

text \<open>Users 1 and 2 have asked for a chat and are matched; the session starts one second
  after \<open>demo_now\<close>.\<close>

definition paired_bot :: bot where
  "paired_bot = run demo_cfg idle_bot
     [ChatCommand 1 63930000000000000 ''AAAAAA'' 0,
      ChatCommand 2 63930000001000000 ''BBBBBB'' 0]"

text \<open>
  Users 1 and 2 chat and user 1 leaves, so both are shown the \<^verbatim>\<open>find_new_partner\<close> button.
  They are matched again, user 3 starts to search, and user 1, still in the chat with
  user 2, presses the button.
\<close>

definition double_session_trace :: "event list" where
  "double_session_trace =
     [ChatCommand 1 63930000000000000 ''AAAAAA'' 0,
      ChatCommand 2 63930000001000000 ''BBBBBB'' 0,
      ExitCommand 1,
      ChatCommand 1 63930000002000000 ''CCCCCC'' 0,
      ChatCommand 2 63930000003000000 ''DDDDDD'' 0,
      ChatCommand 3 63930000004000000 ''EEEEEE'' 0,
      FindNewPartner 1 63930000005000000 ''FFFFFF'' 0]"

text \<open>User 3 of the idle state has been banned.\<close>

definition banned_bot :: bot where
  "banned_bot = idle_bot\<lparr>db := ban_user idle_db 3\<rparr>"

text \<open>
  The banned user 3 presses the \<^verbatim>\<open>find_new_partner\<close> button, which makes no ban test, and
  is matched with user 1 as soon as user 1 asks for a chat, two seconds after \<open>demo_now\<close>.
\<close>

definition banned_pair_bot :: bot where
  "banned_pair_bot = run demo_cfg banned_bot
     [FindNewPartner 3 63930000001000000 ''GGGGGG'' 0,
      ChatCommand 1 63930000002000000 ''HHHHHH'' 0]"

text \<open>
  User 7 holds a premium that expires ten days and one hour after \<open>demo_now\<close>, and has an
  open order.
\<close>

definition vip_row :: user_row where
  "vip_row = \<lparr>gender = Some ''male'', country = Some ''India'', age = Some 30,
               is_premium = False,
               vip_expiry = Some (63930000000000000 + 10 * 86400000000 + 3600000000),
               current_order_id = Some ''ORD-1''\<rparr>"

definition vip_db :: database where
  "vip_db = \<lparr>users = [7 \<mapsto> vip_row], search_queue = [], active_chats = [],
             banned_users = {}\<rparr>"

text \<open>
  Users 1 (male) and 2 (female) hold a premium that runs for another 30 days and have set
  their preference to their own gender; user 3 (female) is not premium. User 1 asks for a
  chat, then user 2, then user 1 once more: neither qualifies for the other, so both wait,
  and the second \<^verbatim>\<open>/chat\<close> of user 1 rewrites the queue row of user 1.
\<close>

definition vip_profile :: "string \<Rightarrow> user_row" where
  "vip_profile g = \<lparr>gender = Some g, country = Some ''India'', age = Some 25,
                     is_premium = False,
                     vip_expiry = Some (63930000000000000 + 30 * 86400000000),
                     current_order_id = None\<rparr>"

definition choosy_bot :: bot where
  "choosy_bot =
     \<lparr>db = \<lparr>users = [1 \<mapsto> vip_profile ''male'', 2 \<mapsto> vip_profile ''female'',
                     3 \<mapsto> profile ''female''],
             search_queue = [], active_chats = [], banned_users = {}\<rparr>,
      user_states = Map.empty, active_sessions = Map.empty,
      user_preferences = [1 \<mapsto> ''male'', 2 \<mapsto> ''female'']\<rparr>"

definition requeue_trace :: "event list" where
  "requeue_trace =
     [ChatCommand 1 63930000000000000 ''AAAAAA'' 0,
      ChatCommand 2 63930000001000000 ''BBBBBB'' 0,
      ChatCommand 1 63930000002000000 ''CCCCCC'' 0]"

text \<open>
  User 3 of the idle state is banned and later unbanned by the admin: the ban has deleted
  the profile row, and the unban does not bring it back.
\<close>

definition unbanned_bot :: bot where
  "unbanned_bot =
     idle_bot\<lparr>db := admin_op demo_cfg
                      (admin_op demo_cfg idle_db 1000 Ban 3 None 63930000000000000)
                      1000 Unban 3 None 63930000000000000\<rparr>"

section \<open>Properties of the storage layer\<close>

lemma select_candidate_mem:
  assumes "select_candidate s u f k = Some row"
  shows "row \<in> set (candidates s u f)"
proof -
  from assms have ne: "candidates s u f \<noteq> []"
    and row: "row = candidates s u f ! (k mod length (candidates s u f))"
    by (auto simp: select_candidate_def split: if_splits)
  from ne have "k mod length (candidates s u f) < length (candidates s u f)" by simp
  then show ?thesis unfolding row by (rule nth_mem)
qed

lemma select_candidate_Some:
  assumes "select_candidate s u f k = Some row"
  shows "row \<in> set (search_queue s)" and "candidate s u f row"
  using select_candidate_mem[OF assms] by (simp_all add: candidates_def)

lemma select_candidate_other:
  "select_candidate s u f k = Some row \<Longrightarrow> fst row \<noteq> u"
  by (drule select_candidate_Some(2)) (simp add: candidate_def)

lemma select_candidate_None:
  "select_candidate s u f k = None \<longleftrightarrow> (\<forall>row \<in> set (search_queue s). \<not> candidate s u f row)"
  by (simp add: select_candidate_def candidates_def filter_empty_conv)

lemma candidate_any: "candidate s u ''any'' = (\<lambda>row. fst row \<noteq> u)"
  by (rule ext) (simp add: candidate_def)

lemma candidate_filter:
  "looking_for \<noteq> ''any'' \<Longrightarrow>
     candidate s u looking_for row = (fst row \<noteq> u \<and> gender_of s (fst row) = Some looking_for)"
  by (simp add: candidate_def gender_of_def split: option.splits)

lemma find_match_fst:
  "fst (find_match s u looking_for k) = map_option fst (select_candidate s u looking_for k)"
  by (simp add: find_match_def split: option.splits)

text \<open>
  Read as one step, a successful \<^verbatim>\<open>find_match\<close> ends with the session row in place and
  neither of the two users in the queue; the profile rows and the bans are untouched.
\<close>

lemma find_match_post:
  assumes "find_match s u f k = (Some p, s')"
  shows "(u, p) \<in> set (active_chats s') \<and> \<not> is_searching s' u \<and> \<not> is_searching s' p \<and>
         is_searching s p \<and> users s' = users s \<and> banned_users s' = banned_users s"
proof -
  from assms obtain row where sel: "select_candidate s u f k = Some row" and p: "p = fst row"
    and s': "s' = delete_queue_pair (insert_active_chat s u p) u p"
    by (auto simp: find_match_def split: option.splits)
  from select_candidate_Some(1)[OF sel] p have "is_searching s p"
    by (auto simp: is_searching_def)
  then show ?thesis
    unfolding s' by (auto simp: insert_active_chat_def delete_queue_pair_def is_searching_def)
qed

lemma find_match_unmatched:
  "fst (find_match s u f k) = None \<Longrightarrow> snd (find_match s u f k) = s"
  by (simp add: find_match_def split: option.splits)

lemma find_match_commits_last:
  "fst (find_match s u f k) \<noteq> None \<Longrightarrow>
     last (find_match_commits s u f k) = snd (find_match s u f k)"
  by (simp add: find_match_def find_match_commits_def split: option.splits)

lemma get_partner_None_iff:
  "get_partner s u = None \<longleftrightarrow> (\<forall>row \<in> set (active_chats s). fst row \<noteq> u \<and> snd row \<noteq> u)"
proof -
  have "get_partner s u = None \<longleftrightarrow>
        List.find (\<lambda>row. fst row = u \<or> snd row = u) (active_chats s) = None"
    by (simp add: get_partner_def split: option.splits)
  also have "\<dots> \<longleftrightarrow> (\<forall>row \<in> set (active_chats s). fst row \<noteq> u \<and> snd row \<noteq> u)"
    unfolding find_None_iff by blast
  finally show ?thesis .
qed

text \<open>
  What a call of \<^verbatim>\<open>find_match\<close> returns and writes, whichever row the database chooses.
  A returned id is that of another queued user who, under a filter, has the gender asked
  for; the session row is appended and the queue rows of both users are deleted. No match
  is returned exactly when no row qualifies, and nothing is written then.
\<close>

lemma find_match_Some:
  assumes "fst (find_match s u f k) = Some p"
  shows "p \<noteq> u" and "is_searching s p"
    and "f \<noteq> ''any'' \<Longrightarrow> gender_of s p = Some f"
    and "snd (find_match s u f k) =
           s\<lparr>active_chats := active_chats s @ [(u, p)],
             search_queue := filter (\<lambda>row. \<not> (fst row = u \<or> fst row = p)) (search_queue s)\<rparr>"
proof -
  from assms obtain row where sel: "select_candidate s u f k = Some row" and p: "p = fst row"
    by (auto simp: find_match_fst)
  note mem = select_candidate_Some[OF sel]
  show "p \<noteq> u" using select_candidate_other[OF sel] p by simp
  show "is_searching s p" using mem(1) p by (auto simp: is_searching_def)
  show "gender_of s p = Some f" if "f \<noteq> ''any''"
    using mem(2) p that by (simp add: candidate_filter)
  show "snd (find_match s u f k) =
           s\<lparr>active_chats := active_chats s @ [(u, p)],
             search_queue := filter (\<lambda>row. \<not> (fst row = u \<or> fst row = p)) (search_queue s)\<rparr>"
    using sel p by (simp add: find_match_def insert_active_chat_def delete_queue_pair_def)
qed

lemma find_match_None:
  "fst (find_match s u f k) = None \<longleftrightarrow>
     (\<forall>row \<in> set (search_queue s). \<not> candidate s u f row)"
  by (simp add: find_match_fst select_candidate_None)

lemma find_match_any_None:
  "(fst (find_match s u ''any'' k) = None) = (\<forall>row \<in> set (search_queue s). fst row = u)"
  by (simp add: find_match_None candidate_any)

lemma find_match_filter_None:
  assumes "f \<noteq> ''any''"
  shows "(fst (find_match s u f k) = None) =
      (\<forall>row \<in> set (search_queue s). fst row = u \<or> gender_of s (fst row) \<noteq> Some f)"
  using assms by (auto simp: find_match_None candidate_filter)

text \<open>
  The \<^verbatim>\<open>looking_for\<close> column of the queue is written and returned by the query but never
  tested: with other values in it the same user is returned.
\<close>

lemma candidates_relabel:
  "candidates (s\<lparr>search_queue := map (\<lambda>row. (fst row, g row)) (search_queue s)\<rparr>) u f =
   map (\<lambda>row. (fst row, g row)) (candidates s u f)"
proof -
  have 1: "candidate (s\<lparr>search_queue := q\<rparr>) u f = candidate s u f" for q
    by (rule ext) (simp add: candidate_def)
  have 2: "candidate s u f \<circ> (\<lambda>row. (fst row, g row)) = candidate s u f"
    by (rule ext) (simp add: candidate_def)
  show ?thesis by (simp add: candidates_def filter_map 1 2)
qed

lemma find_match_relabel:
  "fst (find_match (s\<lparr>search_queue := map (\<lambda>row. (fst row, g row)) (search_queue s)\<rparr>) u f k) =
   fst (find_match s u f k)"
proof (cases "candidates s u f = []")
  case True
  then show ?thesis
    by (simp add: find_match_fst select_candidate_def candidates_relabel)
next
  case False
  then have "k mod length (candidates s u f) < length (candidates s u f)" by simp
  then show ?thesis using False
    by (simp add: find_match_fst select_candidate_def candidates_relabel)
qed

text \<open>Every row that qualifies is returned for some choice.\<close>

lemma select_candidate_any:
  assumes "row \<in> set (candidates s u f)"
  shows "\<exists>k. select_candidate s u f k = Some row"
proof -
  from assms obtain i where i: "i < length (candidates s u f)" and r: "candidates s u f ! i = row"
    by (auto simp: in_set_conv_nth)
  from i have "candidates s u f \<noteq> []" by auto
  with i r have "select_candidate s u f i = Some row"
    by (simp add: select_candidate_def)
  then show ?thesis ..
qed

subsection \<open>Whole days\<close>

lemma floor_day_bounds:
  "delta_days a b * us_per_day \<le> a - b" "a - b < (delta_days a b + 1) * us_per_day"
proof -
  define q where "q = (a - b) div us_per_day"
  define m where "m = (a - b) mod us_per_day"
  have m: "0 \<le> m" "m < us_per_day"
    by (simp_all add: m_def us_per_day_def)
  have e: "q * us_per_day + m = a - b"
    by (simp add: q_def m_def)
  have d: "delta_days a b = q" by (simp add: delta_days_def q_def)
  show "delta_days a b * us_per_day \<le> a - b"
    unfolding d using m e by linarith
  have "(q + 1) * us_per_day = q * us_per_day + us_per_day" by (simp add: algebra_simps)
  then show "a - b < (delta_days a b + 1) * us_per_day"
    unfolding d using m e by linarith
qed

lemma ceil_day_bounds:
  "x \<le> ceil_days x * us_per_day" "(ceil_days x - 1) * us_per_day < x"
proof -
  define q where "q = (- x) div us_per_day"
  define m where "m = (- x) mod us_per_day"
  have m: "0 \<le> m" "m < us_per_day"
    by (simp_all add: m_def us_per_day_def)
  have e: "q * us_per_day + m = - x"
    by (simp add: q_def m_def)
  have d: "ceil_days x = - q" by (simp add: ceil_days_def q_def)
  have 1: "(- q) * us_per_day = - (q * us_per_day)" by simp
  have 2: "(- q - 1) * us_per_day = - (q * us_per_day) - us_per_day" by (simp add: algebra_simps)
  show "x \<le> ceil_days x * us_per_day"
    unfolding d 1 using m e by linarith
  show "(ceil_days x - 1) * us_per_day < x"
    unfolding d 2 using m e by linarith
qed

lemma day_cancel: "a * us_per_day < b * us_per_day \<Longrightarrow> a < b"
  by (simp add: us_per_day_def)

text \<open>
  The days that the approval adds for an expiry \<open>e\<close> that was in the future at the first
  clock reading, against the whole days that remain at the third reading, rounded up:
  never fewer, and at most one more, when the three readings lie within a day.
\<close>

lemma stacking_tolerance:
  assumes "t1 < e" "t1 \<le> t2" "t2 \<le> t3" "t3 - t1 < us_per_day"
  shows "max 0 (ceil_days (e - t3)) \<le> delta_days e t2 + 1"
    and "delta_days e t2 + 1 \<le> max 0 (ceil_days (e - t3)) + 1"
proof -
  note f = floor_day_bounds[of e t2] and c = ceil_day_bounds[of "e - t3"]
  have "(ceil_days (e - t3) - 1) * us_per_day < (delta_days e t2 + 1) * us_per_day"
    using f c assms by linarith
  then have 1: "ceil_days (e - t3) \<le> delta_days e t2 + 1"
    using day_cancel[of "ceil_days (e - t3) - 1" "delta_days e t2 + 1"] by linarith
  have "(-1) * us_per_day < (delta_days e t2 + 1) * us_per_day"
    using f assms by linarith
  then have 2: "0 \<le> delta_days e t2 + 1"
    using day_cancel[of "-1" "delta_days e t2 + 1"] by linarith
  have "(ceil_days (e - t3) + 1) * us_per_day = ceil_days (e - t3) * us_per_day + us_per_day"
    by (simp add: algebra_simps)
  then have "delta_days e t2 * us_per_day < (ceil_days (e - t3) + 1) * us_per_day"
    using f c assms by linarith
  then have 3: "delta_days e t2 \<le> ceil_days (e - t3)"
    using day_cancel[of "delta_days e t2" "ceil_days (e - t3) + 1"] by linarith
  show "max 0 (ceil_days (e - t3)) \<le> delta_days e t2 + 1" using 1 2 by simp
  show "delta_days e t2 + 1 \<le> max 0 (ceil_days (e - t3)) + 1" using 3 by simp
qed

subsection \<open>The grant\<close>

lemma add_days_Inr:
  "add_days t d = Inr e \<Longrightarrow> e = t + d * us_per_day"
  by (auto simp: add_days_def split: if_splits)

lemma add_days_zero: "valid_datetime now \<Longrightarrow> add_days now 0 = Inr now"
  by (simp add: add_days_def)

lemma make_premium_Inr:
  assumes "make_premium s u d now = Inr s'"
  shows "users s' u = Some (case users s u of
            None \<Rightarrow> new_row\<lparr>vip_expiry := Some (now + d * us_per_day)\<rparr>
          | Some r \<Rightarrow> r\<lparr>vip_expiry := Some (now + d * us_per_day), current_order_id := None\<rparr>)"
    and "\<And>v. v \<noteq> u \<Longrightarrow> users s' v = users s v"
    and "search_queue s' = search_queue s"
    and "active_chats s' = active_chats s"
    and "banned_users s' = banned_users s"
  using assms
  by (auto simp: make_premium_def split: sum.splits option.splits dest!: add_days_Inr)

lemma make_premium_returns:
  "(\<exists>s'. make_premium s u d now = Inr s') =
   (\<bar>d\<bar> \<le> 999999999 \<and> valid_datetime (now + d * us_per_day))"
  by (auto simp: make_premium_def add_days_def split: sum.splits)

lemma removevip_row:
  assumes "valid_datetime now"
  shows "users (admin_op cfg s (ADMIN_ID cfg) RemoveVip u arg now) u =
           Some (case users s u of
                   None \<Rightarrow> new_row\<lparr>vip_expiry := Some now\<rparr>
                 | Some r \<Rightarrow> r\<lparr>vip_expiry := Some now, current_order_id := None\<rparr>)"
  using assms by (simp add: admin_op_def make_premium_def add_days_zero)

text \<open>
  The approval returns exactly when the target has a profile row and the stacked total is
  a representable date; a target without a row makes \<^verbatim>\<open>user_data.get\<close> raise, and nothing
  is granted.
\<close>

lemma handle_payment_approve_returns:
  "(\<exists>s'. handle_payment_approve s target d t1 t2 t3 = Inr s') =
   (\<exists>r. users s target = Some r \<and> \<bar>stacked_days r d t1 t2\<bar> \<le> 999999999 \<and>
        valid_datetime (t3 + stacked_days r d t1 t2 * us_per_day))"
  by (auto simp: handle_payment_approve_def get_user_def make_premium_returns
      split: option.splits)

lemma handle_payment_approve_no_row:
  "users s target = None \<Longrightarrow> handle_payment_approve s target d t1 t2 t3 = Inl AttributeError"
  by (simp add: handle_payment_approve_def get_user_def)

subsection \<open>The handlers\<close>

text \<open>The chat block refuses a user who has a partner; the button handler has no such test.\<close>

lemma chat_logic_guard:
  "truthy_id (get_partner (db b) u) \<Longrightarrow> chat_logic cfg b u now sid k = b"
  by (simp add: chat_logic_def)

subsection \<open>One session per user\<close>

text \<open>
  In a paired database partners are mutual. The chat command and the exit command keep a
  database paired, so the property holds after any sequence of them; the
  \<^verbatim>\<open>find_new_partner\<close> button is not among them.
\<close>

lemma members_simps [simp]:
  "members [] = []" "members (row # cs) = fst row # snd row # members cs"
  "members (cs @ ds) = members cs @ members ds"
  by (simp_all add: members_def)

lemma set_members: "set (members cs) = fst ` set cs \<union> snd ` set cs"
  by (induction cs) auto

lemma get_partner_None_members:
  "get_partner s u = None \<longleftrightarrow> u \<notin> set (members (active_chats s))"
  by (auto simp: get_partner_None_iff set_members)

lemma find_partner_sym:
  assumes "distinct (members cs)"
    and "List.find (\<lambda>row. fst row = u \<or> snd row = u) cs = Some row"
  shows "List.find (\<lambda>r. fst r = (if fst row = u then snd row else fst row) \<or>
                        snd r = (if fst row = u then snd row else fst row)) cs = Some row \<and>
         (if fst row = u then snd row else fst row) \<noteq> u"
  using assms
proof (induction cs)
  case Nil
  then show ?case by simp
next
  case (Cons c cs)
  show ?case
  proof (cases "fst c = u \<or> snd c = u")
    case True
    with Cons.prems have "row = c" by simp
    with True Cons.prems(1) show ?thesis by auto
  next
    case False
    with Cons.prems have f: "List.find (\<lambda>row. fst row = u \<or> snd row = u) cs = Some row"
      and d: "distinct (members cs)" by auto
    from f have in_cs: "row \<in> set cs" by (auto simp: find_Some_iff in_set_conv_nth)
    let ?p = "if fst row = u then snd row else fst row"
    have "?p \<in> set (members cs)" using in_cs by (auto simp: set_members)
    with Cons.prems(1) have "fst c \<noteq> ?p" "snd c \<noteq> ?p" by auto
    with Cons.IH[OF d f] show ?thesis by simp
  qed
qed

lemma paired_symmetric:
  assumes "paired s" and "get_partner s u = Some p"
  shows "get_partner s p = Some u"
proof -
  from assms(2) obtain row where
    f: "List.find (\<lambda>row. fst row = u \<or> snd row = u) (active_chats s) = Some row"
    and p: "p = (if fst row = u then snd row else fst row)"
    by (auto simp: get_partner_def split: option.splits)
  from assms(1) have d: "distinct (members (active_chats s))" by (simp add: paired_def)
  from f have u: "fst row = u \<or> snd row = u" by (auto simp: find_Some_iff)
  from find_partner_sym[OF d f] p
  have "List.find (\<lambda>r. fst r = p \<or> snd r = p) (active_chats s) = Some row" and "p \<noteq> u"
    by simp_all
  then show ?thesis using u p by (auto simp: get_partner_def)
qed

lemma members_filter_subset: "set (members (filter P cs)) \<subseteq> set (members cs)"
  by (auto simp: set_members)

lemma distinct_members_filter: "distinct (members cs) \<Longrightarrow> distinct (members (filter P cs))"
  by (induction cs) (auto simp: set_members)

lemma add_to_queue_chats: "active_chats (add_to_queue s u lf) = active_chats s"
  by (simp add: add_to_queue_def)

lemma add_to_queue_ids:
  "fst ` set (search_queue (add_to_queue s u lf)) = insert u (fst ` set (search_queue s))"
  by (auto simp: add_to_queue_def)

lemma paired_add_to_queue:
  assumes "paired s" and "u \<noteq> 0" and "u \<notin> set (members (active_chats s))"
  shows "paired (add_to_queue s u lf)"
  using assms unfolding paired_def add_to_queue_chats add_to_queue_ids by auto

lemma paired_find_match:
  assumes "paired s" and "u \<noteq> 0" and "u \<notin> set (members (active_chats s))"
  shows "paired (snd (find_match s u f k))"
proof (cases "select_candidate s u f k")
  case None
  then show ?thesis using assms(1) by (simp add: find_match_def)
next
  case (Some row)
  from select_candidate_Some[OF Some] have q: "fst row \<in> fst ` set (search_queue s)"
    and ne: "fst row \<noteq> u" by (auto simp: candidate_def)
  from q assms(1) have np: "fst row \<notin> set (members (active_chats s))"
    unfolding paired_def by blast
  from q assms(1) have nz: "fst row \<noteq> 0"
    unfolding paired_def by metis
  let ?s' = "delete_queue_pair (insert_active_chat s u (fst row)) u (fst row)"
  have c: "members (active_chats ?s') = members (active_chats s) @ [u, fst row]"
    by (simp add: delete_queue_pair_def insert_active_chat_def)
  have qs: "fst ` set (search_queue ?s') = fst ` set (search_queue s) - {u, fst row}"
    by (auto simp: delete_queue_pair_def insert_active_chat_def)
  have "paired ?s'"
    unfolding paired_def c qs using assms np nz ne unfolding paired_def by auto
  then show ?thesis using Some by (simp add: find_match_def)
qed

lemma paired_chats_filter:
  assumes "paired s"
  shows "paired (s\<lparr>active_chats := filter P (active_chats s)\<rparr>)"
proof -
  have "set (members (filter P (active_chats s))) \<subseteq> set (members (active_chats s))"
    by (rule members_filter_subset)
  moreover have "distinct (members (filter P (active_chats s)))"
    using assms by (simp add: paired_def distinct_members_filter)
  ultimately show ?thesis using assms unfolding paired_def by auto
qed

lemma paired_disconnect: "paired s \<Longrightarrow> paired (snd (disconnect s u))"
  by (simp add: disconnect_def paired_chats_filter split: option.splits)

lemma paired_queue_subset:
  assumes "paired s" and "active_chats s' = active_chats s"
    and "fst ` set (search_queue s') \<subseteq> fst ` set (search_queue s)"
  shows "paired s'"
  unfolding paired_def assms(2) using assms(1,3) unfolding paired_def by blast

lemma paired_remove_from_queue:
  assumes "paired s"
  shows "paired (remove_from_queue s u)"
  using assms by (rule paired_queue_subset) (auto simp: remove_from_queue_def)

lemma paired_set_country: "paired s \<Longrightarrow> paired (set_country s u c)"
  by (simp add: paired_def set_country_def split: option.splits)

lemma paired_no_partner:
  assumes "paired s" and "\<not> truthy_id (get_partner s u)"
  shows "u \<notin> set (members (active_chats s))"
proof (cases "get_partner s u")
  case None
  then show ?thesis by (simp add: get_partner_None_members)
next
  case (Some p)
  with assms(2) have "p = 0" by (simp add: truthy_id_def)
  with Some have "get_partner s 0 = Some u" using paired_symmetric[OF assms(1), of u 0] by simp
  then have "0 \<in> set (members (active_chats s))"
    using get_partner_None_members[of s 0] by simp
  with assms(1) show ?thesis by (simp add: paired_def)
qed

lemma paired_start_search:
  assumes "paired (db b)" and "u \<noteq> 0" and "u \<notin> set (members (active_chats (db b)))"
  shows "paired (db (start_search cfg b u now sid k))"
proof -
  let ?t = "search_target cfg b u now"
  let ?s1 = "add_to_queue (db b) u ?t"
  have 1: "paired ?s1" using assms by (rule paired_add_to_queue)
  have 2: "u \<notin> set (members (active_chats ?s1))" using assms(3) by (simp add: add_to_queue_chats)
  have 3: "paired (snd (find_match ?s1 u ?t k))" using 1 assms(2) 2 by (rule paired_find_match)
  have "db (start_search cfg b u now sid k) = snd (find_match ?s1 u ?t k)"
    by (simp add: start_search_def Let_def send_match_messages_def split: prod.splits option.splits)
  with 3 show ?thesis by simp
qed

lemma paired_chat_logic:
  assumes "paired (db b)" and "u \<noteq> 0"
  shows "paired (db (chat_logic cfg b u now sid k))"
proof (cases "truthy_id (get_partner (db b) u)")
  case True
  then show ?thesis using assms(1) by (simp add: chat_logic_def)
next
  case False
  from paired_start_search[OF assms paired_no_partner[OF assms(1) False]] False
  show ?thesis by (simp add: chat_logic_def)
qed

lemma paired_handle_text_chat:
  assumes "paired (db b)" and "u \<noteq> 0" and "handle_text_chat cfg b u now sid k = Inr b'"
  shows "paired (db b')"
proof -
  note c = paired_chat_logic[OF assms(1,2), of cfg now sid k]
  note s = paired_set_country[OF assms(1), of u "Some ''/chat''"]
  have "db b' = db b \<or> db b' = db (chat_logic cfg b u now sid k) \<or>
        db b' = set_country (db b) u (Some ''/chat'')"
    using assms(3)
    by (auto simp: handle_text_chat_def check_registration_def
        split: if_splits option.splits ustate.splits)
  with assms(1) c s show ?thesis by auto
qed

lemma paired_handle_text_exit:
  assumes "paired (db b)"
  shows "paired (db (handle_text_exit b u))"
proof -
  have r: "paired (remove_from_queue (snd (disconnect (db b) u)) u)"
    using assms by (intro paired_remove_from_queue paired_disconnect)
  have "db (handle_text_exit b u) = db b \<or>
        db (handle_text_exit b u) = remove_from_queue (snd (disconnect (db b) u)) u"
    by (auto simp: handle_text_exit_def Let_def split: option.splits prod.splits)
  with assms r show ?thesis by auto
qed

lemma paired_handle_event:
  assumes "paired (db b)" and "guarded e"
  shows "paired (db (handle_event cfg b e))"
proof (cases e)
  case (ChatCommand u now sid k)
  with assms(2) have u: "u \<noteq> 0" by simp
  show ?thesis
  proof (cases "handle_text_chat cfg b u now sid k")
    case (Inl err)
    with ChatCommand assms(1) show ?thesis by simp
  next
    case (Inr b')
    from paired_handle_text_chat[OF assms(1) u Inr] ChatCommand Inr show ?thesis by simp
  qed
next
  case (ExitCommand u)
  with paired_handle_text_exit[OF assms(1)] show ?thesis by simp
next
  case (FindNewPartner u now sid k)
  with assms(2) show ?thesis by simp
qed

lemma paired_run:
  assumes "paired (db b)" and "list_all guarded evs"
  shows "paired (db (run cfg b evs))"
  using assms unfolding run_def
proof (induction evs arbitrary: b)
  case Nil
  then show ?case by simp
next
  case (Cons e evs)
  from Cons.prems have "paired (db (handle_event cfg b e))" and "list_all guarded evs"
    by (simp_all add: paired_handle_event)
  from Cons.IH[OF this] show ?case by simp
qed

lemma guarded_run_symmetric:
  assumes "paired (db b)" and "list_all guarded evs"
    and "get_partner (db (run cfg b evs)) u = Some p"
  shows "get_partner (db (run cfg b evs)) p = Some u"
  using paired_symmetric[OF paired_run[OF assms(1,2)] assms(3)] .

lemma distinct_members_same_row:
  assumes "distinct (members cs)" and "r \<in> set cs" and "r' \<in> set cs"
    and "x = fst r \<or> x = snd r" and "x = fst r' \<or> x = snd r'"
  shows "r = r'"
  using assms
proof (induction cs)
  case Nil
  then show ?case by simp
next
  case (Cons c cs)
  have in_members: "\<And>q. q \<in> set cs \<Longrightarrow> fst q \<in> set (members cs) \<and> snd q \<in> set (members cs)"
    by (auto simp: set_members)
  show ?case
  proof (cases "r = c")
    case True
    show ?thesis
    proof (cases "r' = c")
      case True
      with \<open>r = c\<close> show ?thesis by simp
    next
      case False
      with Cons.prems have "r' \<in> set cs" by simp
      from in_members[OF this] Cons.prems(1,4,5) True show ?thesis by auto
    qed
  next
    case False
    with Cons.prems have r: "r \<in> set cs" by simp
    show ?thesis
    proof (cases "r' = c")
      case True
      from in_members[OF r] Cons.prems(1,4,5) True show ?thesis by auto
    next
      case False
      with Cons.prems have "r' \<in> set cs" by simp
      with Cons.IH r Cons.prems show ?thesis by simp
    qed
  qed
qed

lemma paired_only_row:
  assumes "paired s" and "get_partner s u = Some p" and "row \<in> set (active_chats s)"
    and "fst row = p \<or> snd row = p"
  shows "fst row = u \<or> snd row = u"
proof -
  from assms(2) obtain r where
    f: "List.find (\<lambda>row. fst row = u \<or> snd row = u) (active_chats s) = Some r"
    and p: "p = (if fst r = u then snd r else fst r)"
    by (auto simp: get_partner_def split: option.splits)
  from f have r: "r \<in> set (active_chats s)" and u: "fst r = u \<or> snd r = u"
    by (auto simp: find_Some_iff in_set_conv_nth)
  from assms(1) have d: "distinct (members (active_chats s))" by (simp add: paired_def)
  have "p = fst r \<or> p = snd r" using p u by auto
  moreover have "p = fst row \<or> p = snd row" using assms(4) by auto
  ultimately have "r = row" using distinct_members_same_row[OF d r assms(3)] by blast
  with u show ?thesis by simp
qed

lemma paired_ban_frees_partner:
  assumes "paired s" and "get_partner s u = Some p"
  shows "get_partner (ban_user s u) p = None"
proof -
  have "\<forall>row \<in> set (active_chats s). fst row = p \<or> snd row = p \<longrightarrow> fst row = u \<or> snd row = u"
    using paired_only_row[OF assms] by blast
  then have "\<forall>row \<in> set (filter (\<lambda>row. \<not> (fst row = u \<or> snd row = u)) (active_chats s)).
               fst row \<noteq> p \<and> snd row \<noteq> p"
    by auto
  then show ?thesis
    by (simp add: get_partner_None_iff ban_user_def)
qed

text \<open>
  What \<^verbatim>\<open>ban_user\<close> does in any state: \<open>u\<close> is in the ban set, the profile row and
  the queue row of \<open>u\<close> are gone, and so is every session row that names \<open>u\<close>. A user
  \<open>p\<close> has no session left provided every session row that names \<open>p\<close> also names
  \<open>u\<close>, which is so for the partner of \<open>u\<close> in a paired database.
\<close>

lemma ban_user_deletes:
  "is_banned (ban_user s u) u \<and>
   get_user (ban_user s u) u = None \<and>
   \<not> is_searching (ban_user s u) u \<and>
   (\<forall>row \<in> set (active_chats (ban_user s u)). fst row \<noteq> u \<and> snd row \<noteq> u) \<and>
   get_partner (ban_user s u) u = None \<and>
   ((\<forall>row \<in> set (active_chats s). fst row = p \<or> snd row = p \<longrightarrow> fst row = u \<or> snd row = u)
      \<longrightarrow> get_partner (ban_user s u) p = None)"
  by (auto simp: get_partner_None_iff ban_user_def is_banned_def get_user_def is_searching_def)

lemmas db_eval = truthy_id_def truthy_str_def truthy_int_def us_per_day_def datetime_max_def
  valid_datetime_def add_days_def delta_days_def new_row_def get_user_def check_premium_def
  make_premium_def ban_user_def is_banned_def is_searching_def add_to_queue_def
  remove_from_queue_def candidate_def candidates_def select_candidate_def
  insert_active_chat_def
  delete_queue_pair_def find_match_def get_partner_def disconnect_def

lemmas bot_eval = send_match_messages_def search_target_def start_search_def chat_logic_def
  find_new_partner_def is_registered_def check_registration_def handle_text_chat_def
  handle_text_exit_def run_def

lemma paired_state:
  "\<not> is_banned (db paired_bot) 2" "get_partner (db paired_bot) 2 = Some 1"
  "active_sessions paired_bot 2 = Some \<lparr>start_time = 63930000001000000, session_id = ''BBBBBB''\<rparr>"
  "active_chats (db paired_bot) = [(2, 1)]"
  by (simp_all add: paired_bot_def idle_bot_def idle_db_def demo_cfg_def profile_def
      db_eval bot_eval)

lemma idle_state:
  "\<not> is_banned (db idle_bot) 1" "get_partner (db idle_bot) 1 = None" "user_states idle_bot 1 = None"
  by (simp_all add: idle_bot_def idle_db_def is_banned_def get_partner_def)

lemma scenario_queue: "search_queue scenario_db = [(1, ''any''), (2, ''female'')]"
  by (simp add: scenario_db_def idle_db_def add_to_queue_def)

lemma scenario_chats: "active_chats scenario_db = []"
  by (simp add: scenario_db_def idle_db_def add_to_queue_def)

lemma scenario_gender:
  "gender_of scenario_db 1 = Some ''male''" "gender_of scenario_db 2 = Some ''female''"
  by (simp_all add: gender_of_def scenario_db_def idle_db_def add_to_queue_def profile_def)

subsection \<open>Stacking\<close>

text \<open>
  For a target that has a profile row, whenever the approval returns: an expiry \<open>e\<close> in
  the future is replaced by now + ceil(e - now) + d days, within one day; an expiry in the
  past or unset by now + d days; and the pending order id is cleared. The three clock
  readings of the call are in order and within one day of each other; now is the last of
  them, the reading of the write.
\<close>

lemma approve_stacking:
  assumes row: "users s target = Some r"
    and clock: "t1 \<le> t2" "t2 \<le> t3" "t3 - t1 < us_per_day"
    and ok: "handle_payment_approve s target d t1 t2 t3 = Inr s'"
  shows "\<exists>r' n. users s' target = Some r' \<and> vip_expiry r' = Some n \<and>
           current_order_id r' = None \<and>
           (case vip_expiry r of
              None \<Rightarrow> n = t3 + d * us_per_day
            | Some e \<Rightarrow>
                if e \<le> t1 then n = t3 + d * us_per_day
                else t3 + (max 0 (ceil_days (e - t3)) + d) * us_per_day \<le> n \<and>
                     n \<le> t3 + (max 0 (ceil_days (e - t3)) + d) * us_per_day + us_per_day)"
proof -
  let ?k = "stacked_days r d t1 t2"
  from ok row have mp: "make_premium s target ?k t3 = Inr s'"
    by (simp add: handle_payment_approve_def get_user_def)
  have u: "users s' target =
             Some (r\<lparr>vip_expiry := Some (t3 + ?k * us_per_day), current_order_id := None\<rparr>)"
    using make_premium_Inr(1)[OF mp] row by simp
  have "case vip_expiry r of
          None \<Rightarrow> t3 + ?k * us_per_day = t3 + d * us_per_day
        | Some e \<Rightarrow>
            if e \<le> t1 then t3 + ?k * us_per_day = t3 + d * us_per_day
            else t3 + (max 0 (ceil_days (e - t3)) + d) * us_per_day \<le> t3 + ?k * us_per_day \<and>
                 t3 + ?k * us_per_day \<le>
                   t3 + (max 0 (ceil_days (e - t3)) + d) * us_per_day + us_per_day"
  proof (cases "vip_expiry r")
    case None
    then show ?thesis by (simp add: stacked_days_def)
  next
    case (Some e)
    show ?thesis
    proof (cases "e \<le> t1")
      case True
      then show ?thesis using Some by (simp add: stacked_days_def)
    next
      case False
      then have fut: "t1 < e" by simp
      have k: "?k = delta_days e t2 + 1 + d" using Some fut by (simp add: stacked_days_def)
      have pos: "0 \<le> us_per_day" by (simp add: us_per_day_def)
      from stacking_tolerance[OF fut clock]
      have "max 0 (ceil_days (e - t3)) + d \<le> ?k" "?k \<le> max 0 (ceil_days (e - t3)) + d + 1"
        unfolding k by simp_all
      then have a: "(max 0 (ceil_days (e - t3)) + d) * us_per_day \<le> ?k * us_per_day"
        and b: "?k * us_per_day \<le> (max 0 (ceil_days (e - t3)) + d + 1) * us_per_day"
        using pos by (simp_all only: mult_right_mono)
      have c: "(max 0 (ceil_days (e - t3)) + d + 1) * us_per_day =
               (max 0 (ceil_days (e - t3)) + d) * us_per_day + us_per_day"
        by (simp add: algebra_simps)
      show ?thesis using Some False a b unfolding c by simp
    qed
  qed
  with u show ?thesis by auto
qed

text \<open>
  User 7 has ten days and one hour left and is granted 30 days: eleven days are counted
  as remaining, and the new expiry is 41 days after the write.
\<close>

lemma approve_stacking_example:
  "\<exists>s'. handle_payment_approve vip_db 7 30 demo_now (demo_now + 40) (demo_now + 2500) = Inr s' \<and>
     (\<exists>r' n. users s' 7 = Some r' \<and> vip_expiry r' = Some n \<and> current_order_id r' = None \<and>
        demo_now + 2500 + 41 * us_per_day \<le> n \<and> n \<le> demo_now + 2500 + 42 * us_per_day)"
proof -
  have row: "users vip_db 7 = Some vip_row" by (simp add: vip_db_def)
  have "\<exists>s'. handle_payment_approve vip_db 7 30 demo_now (demo_now + 40) (demo_now + 2500) = Inr s'"
    by (simp add: handle_payment_approve_def row stacked_days_def vip_row_def demo_now_def
        db_eval)
  then obtain s' where
    ok: "handle_payment_approve vip_db 7 30 demo_now (demo_now + 40) (demo_now + 2500) = Inr s'" ..
  have c: "demo_now \<le> demo_now + 40" "demo_now + 40 \<le> demo_now + 2500"
    "demo_now + 2500 - demo_now < us_per_day"
    by (simp_all add: us_per_day_def)
  from approve_stacking[OF row c ok] ok show ?thesis
    by (simp add: vip_row_def demo_now_def ceil_days_def us_per_day_def)
qed

section \<open>The claims\<close>

text \<open>
  C1. When \<^verbatim>\<open>find_match(user, filter)\<close> succeeds, the session is created and both queue
  entries are removed within one atomic transaction boundary, so that no observable state
  has a user both in the search queue and in an active session.

  The code opens no transaction: the \<^verbatim>\<open>INSERT\<close> and the \<^verbatim>\<open>DELETE\<close> are committed one
  after the other. With user 2 waiting and user 1 searching, the state committed by the
  \<^verbatim>\<open>INSERT\<close> has both users in the queue and in the session with each other; only the
  second committed state has them out of the queue.
\<close>

theorem find_match_not_atomic:
  "map (\<lambda>s. (is_searching s 1, get_partner s 1, is_searching s 2, get_partner s 2))
     (find_match_commits waiting_db 1 ''any'' choice) =
   [(True, Some 2, True, Some 1), (False, Some 2, False, Some 1)]"
  by (simp add: find_match_commits_def waiting_db_def idle_db_def db_eval)

text \<open>
  C2. For every target whose expiry lies in the future, the approval of \<open>d\<close> days sets
  the new expiry to now + ceil(e - now) + d days, within one day, and to now + d days when
  the expiry is in the past or unset; the write clears the pending order id.

  The approval reads the profile row of the target and calls \<^verbatim>\<open>.get\<close> on the result with
  no test for a missing row. User 3 has none after a ban and an unban; the photo that this
  user sends is forwarded to the admin with the approve button for 30 days all the same,
  and the approval then raises before \<^verbatim>\<open>make_premium\<close> is called: no expiry is written.
  \<^verbatim>\<open>make_premium\<close> itself inserts a missing row, as \<^verbatim>\<open>/addvip 3 30\<close> shows in the same
  state. For a target with a profile row the approval stacks as the claim says
  (\<open>approve_stacking\<close>).
\<close>

theorem approve_without_profile_row:
  "\<not> is_banned (db unbanned_bot) 3 \<and>
   get_user (db unbanned_bot) 3 = None \<and>
   fst (handle_media demo_cfg unbanned_bot 3 Photo demo_now True) =
     [SendPhotoToAdmin 3 30, ReplyScreenshotReceived] \<and>
   handle_payment_approve (db unbanned_bot) 3 30 demo_now demo_now demo_now =
     Inl AttributeError \<and>
   expiry_of (admin_op demo_cfg (db unbanned_bot) 1000 AddVip 3 (Some 30) demo_now) 3 =
     Some (demo_now + 30 * us_per_day)"
  by (simp add: unbanned_bot_def idle_bot_def idle_db_def demo_cfg_def demo_now_def
      admin_op_def handle_media_def payment_proof_def days_to_add_def
      handle_payment_approve_def expiry_of_def unban_user_def db_eval)

text \<open>
  C3, as the code has it. \<^verbatim>\<open>/addvip user days\<close> and the approval both write through
  \<^verbatim>\<open>make_premium\<close>, but only the approval stacks: \<^verbatim>\<open>/addvip\<close> sets the expiry to the
  write time plus \<open>d\<close> days whatever the stored expiry is. For a user with a profile row
  the two leave the same database when the expiry is unset or not after the first clock
  reading of the approval; when it is, the approval's expiry is later by the remaining days
  it counted, at least one whenever the expiry is not before the second reading.
\<close>

theorem addvip_overwrites_approve_stacks:
  assumes row: "users s u = Some r"
    and a: "handle_payment_approve s u d t1 t2 t3 = Inr s1"
    and b: "make_premium s u d t3 = Inr s2"
  shows "admin_op cfg s (ADMIN_ID cfg) AddVip u (Some d) t3 = s2 \<and>
         expiry_of s2 u = Some (t3 + d * us_per_day) \<and>
         (case vip_expiry r of
            None \<Rightarrow> s1 = s2
          | Some e \<Rightarrow>
              if e \<le> t1 then s1 = s2
              else expiry_of s1 u =
                     Some (t3 + d * us_per_day + (delta_days e t2 + 1) * us_per_day) \<and>
                   (if t2 \<le> e then 1 \<le> delta_days e t2 + 1 else True))"
proof -
  have 1: "admin_op cfg s (ADMIN_ID cfg) AddVip u (Some d) t3 = s2"
    using b by (simp add: admin_op_def)
  have 2: "expiry_of s2 u = Some (t3 + d * us_per_day)"
    using make_premium_Inr(1)[OF b] row by (simp add: expiry_of_def)
  from a row have mp: "make_premium s u (stacked_days r d t1 t2) t3 = Inr s1"
    by (simp add: handle_payment_approve_def get_user_def)
  have 3: "case vip_expiry r of
             None \<Rightarrow> s1 = s2
           | Some e \<Rightarrow>
               if e \<le> t1 then s1 = s2
               else expiry_of s1 u =
                      Some (t3 + d * us_per_day + (delta_days e t2 + 1) * us_per_day) \<and>
                    (if t2 \<le> e then 1 \<le> delta_days e t2 + 1 else True)"
  proof (cases "vip_expiry r")
    case None
    then have "stacked_days r d t1 t2 = d" by (simp add: stacked_days_def)
    with mp b show ?thesis using None by simp
  next
    case (Some e)
    show ?thesis
    proof (cases "e \<le> t1")
      case True
      then have "stacked_days r d t1 t2 = d" using Some by (simp add: stacked_days_def)
      with mp b show ?thesis using Some True by simp
    next
      case False
      then have k: "stacked_days r d t1 t2 = delta_days e t2 + 1 + d"
        using Some by (simp add: stacked_days_def)
      have x: "expiry_of s1 u = Some (t3 + d * us_per_day + (delta_days e t2 + 1) * us_per_day)"
        using make_premium_Inr(1)[OF mp] row unfolding k
        by (simp add: expiry_of_def algebra_simps)
      have y: "1 \<le> delta_days e t2 + 1" if "t2 \<le> e"
      proof -
        from that have "(-1) * us_per_day < delta_days e t2 * us_per_day"
          using floor_day_bounds(2)[of e t2] by (simp add: algebra_simps us_per_day_def)
        then have "-1 < delta_days e t2" by (rule day_cancel)
        then show ?thesis by simp
      qed
      show ?thesis using Some False x y by simp
    qed
  qed
  from 1 2 3 show ?thesis by simp
qed

text \<open>
  At one and the same instant, user 7 (ten days and one hour left) ends 30 days from now
  by \<^verbatim>\<open>/addvip 7 30\<close> and 41 days from now by the approval of 30 days.
\<close>

theorem addvip_differs_from_approve:
  "expiry_of (admin_op demo_cfg vip_db 1000 AddVip 7 (Some 30) demo_now) 7 =
     Some (demo_now + 30 * us_per_day) \<and>
   (case handle_payment_approve vip_db 7 30 demo_now demo_now demo_now of
      Inl e \<Rightarrow> None
    | Inr s' \<Rightarrow> expiry_of s' 7) = Some (demo_now + 41 * us_per_day)"
  by (simp add: expiry_of_def admin_op_def handle_payment_approve_def stacked_days_def
      demo_cfg_def vip_db_def vip_row_def demo_now_def db_eval)

theorem addvip_overwrites_approve_stacks_witness:
  "\<exists>s1 s2. handle_payment_approve vip_db 7 30 demo_now (demo_now + 40) (demo_now + 2500) = Inr s1 \<and>
     make_premium vip_db 7 30 (demo_now + 2500) = Inr s2 \<and>
     admin_op demo_cfg vip_db 1000 AddVip 7 (Some 30) (demo_now + 2500) = s2 \<and>
     expiry_of s2 7 = Some (demo_now + 2500 + 30 * us_per_day) \<and>
     expiry_of s1 7 = Some (demo_now + 2500 + 41 * us_per_day)"
proof -
  have row: "users vip_db 7 = Some vip_row" by (simp add: vip_db_def)
  have "\<exists>s1. handle_payment_approve vip_db 7 30 demo_now (demo_now + 40) (demo_now + 2500) = Inr s1"
    by (simp add: handle_payment_approve_def row stacked_days_def vip_row_def demo_now_def
        db_eval)
  then obtain s1 where
    a: "handle_payment_approve vip_db 7 30 demo_now (demo_now + 40) (demo_now + 2500) = Inr s1" ..
  have "\<exists>s2. make_premium vip_db 7 30 (demo_now + 2500) = Inr s2"
    by (simp add: demo_now_def db_eval)
  then obtain s2 where b: "make_premium vip_db 7 30 (demo_now + 2500) = Inr s2" ..
  have adm: "ADMIN_ID demo_cfg = 1000" by (simp add: demo_cfg_def)
  from addvip_overwrites_approve_stacks[OF row a b, of demo_cfg] a b adm
  show ?thesis
    by (simp add: vip_row_def demo_now_def delta_days_def us_per_day_def)
qed

text \<open>
  C4. In every reachable state, whenever \<^verbatim>\<open>get_partner(u)\<close> returns some \<open>p\<close>,
  \<^verbatim>\<open>get_partner(p)\<close> returns \<open>u\<close>: each id is in at most one session.

  The \<^verbatim>\<open>find_new_partner\<close> button starts a search without the test for a running chat
  that the chat command makes. After \<open>double_session_trace\<close> user 1 is in two session
  rows: users 2 and 3 both have user 1 as partner, and user 1 has user 2.
\<close>

theorem double_session_reached:
  "active_chats (db (run demo_cfg idle_bot double_session_trace)) = [(2, 1), (1, 3)] \<and>
   get_partner (db (run demo_cfg idle_bot double_session_trace)) 2 = Some 1 \<and>
   get_partner (db (run demo_cfg idle_bot double_session_trace)) 3 = Some 1 \<and>
   get_partner (db (run demo_cfg idle_bot double_session_trace)) 1 = Some 2"
  by (simp add: double_session_trace_def idle_bot_def idle_db_def demo_cfg_def profile_def
      db_eval bot_eval)

text \<open>
  C5. For every database state and every filter, \<^verbatim>\<open>find_match(u, filter)\<close> never returns
  \<open>u\<close> itself: the candidate query excludes the caller's own id.
\<close>

theorem find_match_never_self:
  "fst (find_match s u looking_for choice) \<noteq> Some u"
  by (auto simp: find_match_def split: option.splits dest: select_candidate_other)

text \<open>
  C6, as the code has it. With a filter other than \<^verbatim>\<open>any\<close>, a partner that
  \<^verbatim>\<open>find_match\<close> returns has the stored gender that the filter asks for. The filter is
  one-sided: a returned partner is a queued user other than the caller, whatever that
  user's own filter is (with other filters in the queue the same user is returned), and
  the match is made, the session row written and both queue rows deleted. With \<^verbatim>\<open>any\<close>
  there is a match whenever another user is queued; with a filter there is none, and
  nothing changes, exactly as long as no other queued user has that gender. Which of
  several qualifying users is returned is the choice of the database: it need not be the
  one who has waited longest.
\<close>

theorem find_match_filter:
  "(fst (find_match s u looking_for choice) = Some p \<longrightarrow>
      p \<noteq> u \<and> is_searching s p \<and>
      (looking_for \<noteq> ''any'' \<longrightarrow> gender_of s p = Some looking_for) \<and>
      snd (find_match s u looking_for choice) =
        s\<lparr>active_chats := active_chats s @ [(u, p)],
          search_queue := filter (\<lambda>row. \<not> (fst row = u \<or> fst row = p)) (search_queue s)\<rparr>) \<and>
   (fst (find_match s u looking_for choice) = None \<longrightarrow>
      snd (find_match s u looking_for choice) = s) \<and>
   ((fst (find_match s u ''any'' choice) = None) =
      (\<forall>row \<in> set (search_queue s). fst row = u)) \<and>
   (looking_for \<noteq> ''any'' \<longrightarrow>
      (fst (find_match s u looking_for choice) = None) =
      (\<forall>row \<in> set (search_queue s).
          fst row = u \<or> gender_of s (fst row) \<noteq> Some looking_for)) \<and>
   fst (find_match (s\<lparr>search_queue := map (\<lambda>row. (fst row, g row)) (search_queue s)\<rparr>)
          u looking_for choice) =
     fst (find_match s u looking_for choice)"
  using find_match_Some[of s u looking_for choice p]
    find_match_unmatched[of s u looking_for choice]
    find_match_any_None[of s u choice]
    find_match_filter_None[of looking_for s u choice]
    find_match_relabel[where s = s and g = g and u = u and f = looking_for and k = choice]
  by blast

text \<open>
  User 1 is the first to enter the queue and does not leave it. After \<open>requeue_trace\<close>
  the row of user 1 is behind the row of user 2, and user 3, searching with \<^verbatim>\<open>any\<close>, is
  matched with user 2 by the scan in the order written; user 1 goes on waiting.
\<close>

theorem first_queued_not_matched:
  "search_queue (db (run demo_cfg choosy_bot (take 1 requeue_trace))) = [(1, ''male'')] \<and>
   search_queue (db (run demo_cfg choosy_bot (take 2 requeue_trace))) =
     [(1, ''male''), (2, ''female'')] \<and>
   search_queue (db (run demo_cfg choosy_bot requeue_trace)) =
     [(2, ''female''), (1, ''male'')] \<and>
   fst (find_match (add_to_queue (db (run demo_cfg choosy_bot requeue_trace)) 3 ''any'')
          3 ''any'' 0) = Some 2 \<and>
   get_partner (db (run demo_cfg choosy_bot
      (requeue_trace @ [ChatCommand 3 63930000003000000 ''DDDDDD'' 0]))) 3 = Some 2 \<and>
   is_searching (db (run demo_cfg choosy_bot
      (requeue_trace @ [ChatCommand 3 63930000003000000 ''DDDDDD'' 0]))) 1"
  by (simp add: requeue_trace_def choosy_bot_def vip_profile_def profile_def demo_cfg_def
      db_eval bot_eval Let_def)

text \<open>
  The scenario of the specification: B finds nobody while only A waits, and nothing is
  written; A is matched with B in spite of B's filter, which empties the queue; and B is
  matched with user 3 once that female user is queued.
\<close>

theorem find_match_filter_witness:
  "fst (find_match scenario_db 2 ''female'' 0) = None \<and>
   snd (find_match scenario_db 2 ''female'' 0) = scenario_db \<and>
   fst (find_match scenario_db 1 ''any'' 0) = Some 2 \<and>
   active_chats (snd (find_match scenario_db 1 ''any'' 0)) = [(1, 2)] \<and>
   search_queue (snd (find_match scenario_db 1 ''any'' 0)) = [] \<and>
   fst (find_match (add_to_queue scenario_db 3 ''any'') 2 ''female'' 0) = Some 3 \<and>
   gender_of (add_to_queue scenario_db 3 ''any'') 3 = Some ''female''"
proof -
  have f: "''female'' \<noteq> ''any''" by simp
  have 1: "fst (find_match scenario_db 2 ''female'' 0) = None"
    using find_match_filter[of scenario_db 2 "''female''" 0 3] f
    by (simp add: scenario_queue scenario_gender)
  have 2: "snd (find_match scenario_db 2 ''female'' 0) = scenario_db"
    using find_match_filter[of scenario_db 2 "''female''" 0 3] 1 by blast
  have 3: "fst (find_match scenario_db 1 ''any'' 0) = Some 2"
    by (simp add: scenario_db_def idle_db_def profile_def db_eval)
  from find_match_filter[of scenario_db 1 "''any''" 0 2] 3
  have 4: "snd (find_match scenario_db 1 ''any'' 0) =
      scenario_db\<lparr>active_chats := active_chats scenario_db @ [(1, 2)],
        search_queue := filter (\<lambda>row. \<not> (fst row = 1 \<or> fst row = 2)) (search_queue scenario_db)\<rparr>"
    by blast
  have 5: "active_chats (snd (find_match scenario_db 1 ''any'' 0)) = [(1, 2)]"
    "search_queue (snd (find_match scenario_db 1 ''any'' 0)) = []"
    unfolding 4 by (simp_all add: scenario_queue scenario_chats)
  have 6: "fst (find_match (add_to_queue scenario_db 3 ''any'') 2 ''female'' 0) = Some 3"
    by (simp add: scenario_db_def idle_db_def profile_def db_eval)
  from find_match_filter[of "add_to_queue scenario_db 3 ''any''" 2 "''female''" 0 3] f 6
  have 7: "gender_of (add_to_queue scenario_db 3 ''any'') 3 = Some ''female''"
    by blast
  from 1 2 3 5 6 7 show ?thesis by simp
qed

text \<open>
  C7. Banning \<open>u\<close> adds \<open>u\<close> to the ban set and deletes the profile row, the queue
  entry and every session that references \<open>u\<close>; if \<open>u\<close> was in session with \<open>p\<close>,
  afterwards neither \<open>u\<close> nor \<open>p\<close> has an active session.

  \<^verbatim>\<open>ban_user\<close> deletes the session rows that name \<open>u\<close> and no others, whereas
  \<^verbatim>\<open>disconnect\<close> deletes the rows of both sides. In the state that
  \<open>double_session_trace\<close> reaches, users 2 and 1 are each other's partner and user 1 is
  in a second row, with user 3. After user 2 is banned, user 1 still has a session, with
  user 3; \<^verbatim>\<open>disconnect\<close> of user 2 would have left user 1 with none. In a paired
  database the partner is freed (\<open>paired_ban_frees_partner\<close>).
\<close>

theorem ban_leaves_partner_in_session:
  "get_partner (db (run demo_cfg idle_bot double_session_trace)) 2 = Some 1 \<and>
   get_partner (db (run demo_cfg idle_bot double_session_trace)) 1 = Some 2 \<and>
   get_partner (ban_user (db (run demo_cfg idle_bot double_session_trace)) 2) 2 = None \<and>
   get_partner (ban_user (db (run demo_cfg idle_bot double_session_trace)) 2) 1 = Some 3 \<and>
   get_partner (snd (disconnect (db (run demo_cfg idle_bot double_session_trace)) 2)) 1 = None"
  by (simp add: double_session_trace_def idle_bot_def idle_db_def demo_cfg_def profile_def
      db_eval bot_eval)

text \<open>
  C8, as the code has it. A media message of a sender who is not banned and has a partner
  is answered with the locked notice, and not forwarded, while less than 120 seconds have
  passed since the session start that the process has on record for the sender. From 120
  seconds on, and whenever no start is on record, it is copied to the partner (should the
  delivery fail, the session is disconnected). Text is relayed whatever the elapsed time
  is: the text relay does not read the record at all.
\<close>

theorem media_cooldown:
  assumes "\<not> is_banned (db b) u" and "get_partner (db b) u = Some p" and "p \<noteq> 0"
  shows "(\<forall>session. active_sessions b u = Some session \<and>
                    now - start_time session < 120000000 \<longrightarrow>
            handle_media cfg b u m now sent = ([ReplyMediaLocked], b)) \<and>
         ((case active_sessions b u of
             None \<Rightarrow> True
           | Some session \<Rightarrow> 120000000 \<le> now - start_time session) \<longrightarrow>
            handle_media cfg b u m now sent =
              (if sent
               then (CopyMessage p #
                       (if LOG_MEDIA cfg \<noteq> 0 \<and> m \<noteq> Sticker then [SendMediaLog m u p] else []),
                     b)
               else ([CopyMessage p, ReplyPartnerDisconnected],
                     b\<lparr>db := snd (disconnect (db b) u)\<rparr>))) \<and>
         (\<not> has_link txt \<and> \<not> starts_with ''/'' txt \<and> txt \<notin> set blocked_words \<longrightarrow>
            fst (relay_text b u txt sent) =
              SendText p txt # (if sent then [] else [ReplyPartnerDisconnected])) \<and>
         (\<forall>a. fst (relay_text (b\<lparr>active_sessions := a\<rparr>) u txt sent) =
                fst (relay_text b u txt sent) \<and>
              db (snd (relay_text (b\<lparr>active_sessions := a\<rparr>) u txt sent)) =
                db (snd (relay_text b u txt sent)))"
  using assms
  by (auto simp: handle_media_def relay_media_def media_locked_def relay_text_def relay_to_def
      split: option.splits)

text \<open>
  The session of users 1 and 2 starts one second after \<open>demo_now\<close>. The process is
  restarted, and five seconds into the session a photo of user 2 is copied to user 1.
  And the banned user 3, in a session with user 1 for 200 seconds, sends a photo: nothing
  is sent to anybody.
\<close>

theorem media_cooldown_exceptions:
  "active_sessions paired_bot 2 =
     Some \<lparr>start_time = 63930000001000000, session_id = ''BBBBBB''\<rparr> \<and>
   get_partner (db (restart paired_bot)) 2 = Some 1 \<and>
   fst (handle_media demo_cfg (restart paired_bot) 2 Photo (63930000001000000 + 5000000) True) =
     [CopyMessage 1] \<and>
   active_sessions banned_pair_bot 3 =
     Some \<lparr>start_time = 63930000002000000, session_id = ''HHHHHH''\<rparr> \<and>
   get_partner (db banned_pair_bot) 3 = Some 1 \<and>
   fst (handle_media demo_cfg banned_pair_bot 3 Photo (63930000002000000 + 200000000) True) = []"
proof -
  have 1: "get_partner (db (restart paired_bot)) 2 = Some 1 \<and>
     fst (handle_media demo_cfg (restart paired_bot) 2 Photo (63930000001000000 + 5000000) True) =
       [CopyMessage 1]"
    using paired_state
    by (simp add: restart_def handle_media_def relay_media_def media_locked_def demo_cfg_def)
  have 2: "active_sessions banned_pair_bot 3 =
       Some \<lparr>start_time = 63930000002000000, session_id = ''HHHHHH''\<rparr> \<and>
     get_partner (db banned_pair_bot) 3 = Some 1 \<and>
     fst (handle_media demo_cfg banned_pair_bot 3 Photo (63930000002000000 + 200000000) True) = []"
    by (simp add: handle_media_def banned_pair_bot_def banned_bot_def idle_bot_def idle_db_def
        profile_def demo_cfg_def db_eval bot_eval)
  from 1 2 paired_state(3) show ?thesis by simp
qed

lemma hello_plain:
  "\<not> has_link ''hello''" "\<not> starts_with ''/'' ''hello''" "''hello'' \<notin> set blocked_words"
  by (simp_all add: has_link_def lower_def blocked_words_def)

text \<open>
  One microsecond before the 120 seconds are over a photo of user 2 is locked, at 120
  seconds it is copied to user 1, and a text goes through in the same session.
\<close>

theorem media_cooldown_witness:
  "fst (handle_media demo_cfg paired_bot 2 Photo (63930000001000000 + 119999999) True) =
     [ReplyMediaLocked] \<and>
   fst (handle_media demo_cfg paired_bot 2 Photo (63930000001000000 + 120000000) True) =
     [CopyMessage 1] \<and>
   fst (relay_text paired_bot 2 ''hello'' True) = [SendText 1 ''hello'']"
proof -
  have p: "(1::int) \<noteq> 0" by simp
  have l: "LOG_MEDIA demo_cfg = 0" by (simp add: demo_cfg_def)
  from media_cooldown[OF paired_state(1) paired_state(2) p,
      of "63930000001000000 + 119999999" demo_cfg Photo True "''hello''"]
  have 1: "fst (handle_media demo_cfg paired_bot 2 Photo (63930000001000000 + 119999999) True) =
     [ReplyMediaLocked]"
    and 3: "fst (relay_text paired_bot 2 ''hello'' True) = [SendText 1 ''hello'']"
    using hello_plain paired_state(3) by simp_all
  from media_cooldown[OF paired_state(1) paired_state(2) p,
      of "63930000001000000 + 120000000" demo_cfg Photo True "''hello''"]
  have 2: "fst (handle_media demo_cfg paired_bot 2 Photo (63930000001000000 + 120000000) True) =
     [CopyMessage 1]"
    using l paired_state(3) by simp
  from 1 2 3 show ?thesis by simp
qed

text \<open>
  C9. \<^verbatim>\<open>make_premium(user, days)\<close> returns exactly when now + days is a representable
  date, whatever is stored; it then overwrites the expiry with now + days, never adding
  what was left, clears the pending order id and leaves the permanent flag as it was (off
  for a row it inserts). So \<^verbatim>\<open>/removevip\<close>, which calls it with 0 days, sets the expiry
  to now: from then on \<^verbatim>\<open>check_premium\<close> answers with the permanent flag alone, which is
  unchanged.
\<close>

theorem make_premium_overwrites:
  "((\<exists>s'. make_premium s u d now = Inr s') =
      (\<bar>d\<bar> \<le> 999999999 \<and> valid_datetime (now + d * us_per_day))) \<and>
   (make_premium s u d now = Inr s' \<longrightarrow>
      expiry_of s' u = Some (now + d * us_per_day) \<and>
      (\<exists>r'. users s' u = Some r' \<and> current_order_id r' = None) \<and>
      premium_flag s' u = premium_flag s u) \<and>
   (valid_datetime now \<longrightarrow>
      expiry_of (admin_op cfg s (ADMIN_ID cfg) RemoveVip u arg now) u = Some now \<and>
      premium_flag (admin_op cfg s (ADMIN_ID cfg) RemoveVip u arg now) u = premium_flag s u \<and>
      (\<forall>t. now \<le> t \<longrightarrow>
         check_premium (admin_op cfg s (ADMIN_ID cfg) RemoveVip u arg now) u t =
         premium_flag s u))"
proof (intro conjI impI)
  show "(\<exists>s'. make_premium s u d now = Inr s') =
      (\<bar>d\<bar> \<le> 999999999 \<and> valid_datetime (now + d * us_per_day))"
    by (rule make_premium_returns)
next
  assume ok: "make_premium s u d now = Inr s'"
  from make_premium_Inr(1)[OF ok]
  show "expiry_of s' u = Some (now + d * us_per_day)"
    and "\<exists>r'. users s' u = Some r' \<and> current_order_id r' = None"
    and "premium_flag s' u = premium_flag s u"
    by (auto simp: expiry_of_def premium_flag_def new_row_def split: option.splits)
next
  assume v: "valid_datetime now"
  note r = removevip_row[OF v, of cfg s u arg]
  show "expiry_of (admin_op cfg s (ADMIN_ID cfg) RemoveVip u arg now) u = Some now"
    by (simp add: expiry_of_def r split: option.splits)
  show "premium_flag (admin_op cfg s (ADMIN_ID cfg) RemoveVip u arg now) u = premium_flag s u"
    by (simp add: premium_flag_def r new_row_def split: option.splits)
  show "\<forall>t. now \<le> t \<longrightarrow>
         check_premium (admin_op cfg s (ADMIN_ID cfg) RemoveVip u arg now) u t =
         premium_flag s u"
    by (auto simp: check_premium_def premium_flag_def r new_row_def split: option.splits)
qed

text \<open>
  User 7 is premium by the expiry date alone. A grant of 30 days replaces the ten days
  left, and \<^verbatim>\<open>/removevip 7\<close> ends the premium at once.
\<close>

theorem make_premium_overwrites_witness:
  "check_premium vip_db 7 demo_now \<and>
   (\<exists>s'. make_premium vip_db 7 30 demo_now = Inr s' \<and>
         expiry_of s' 7 = Some (demo_now + 30 * us_per_day) \<and>
         (\<exists>r'. users s' 7 = Some r' \<and> current_order_id r' = None)) \<and>
   valid_datetime demo_now \<and>
   \<not> check_premium (admin_op demo_cfg vip_db 1000 RemoveVip 7 None demo_now) 7 demo_now \<and>
   \<not> premium_flag (admin_op demo_cfg vip_db 1000 RemoveVip 7 None demo_now) 7"
proof -
  have v: "valid_datetime demo_now" "\<bar>30::int\<bar> \<le> 999999999"
    "valid_datetime (demo_now + 30 * us_per_day)"
    by (simp_all add: valid_datetime_def demo_now_def datetime_max_def us_per_day_def)
  note mp = make_premium_overwrites[of vip_db 7 30 demo_now _ demo_cfg None]
  from mp v obtain s' where ok: "make_premium vip_db 7 30 demo_now = Inr s'"
    by blast
  have a: "ADMIN_ID demo_cfg = 1000" by (simp add: demo_cfg_def)
  have f: "premium_flag vip_db 7 = False"
    by (simp add: premium_flag_def vip_db_def vip_row_def)
  have c: "check_premium vip_db 7 demo_now"
    by (simp add: check_premium_def vip_db_def vip_row_def demo_now_def)
  from make_premium_overwrites[of vip_db 7 30 demo_now s' demo_cfg None] ok v a f c
  show ?thesis by auto
qed

text \<open>
  C10, as the code has it. A photo from a user who is not banned and has no active session
  is forwarded to the admin with an approve and a reject button, and the user's pending
  state is dropped; the approve button grants the days of the recorded plan selection,
  and 30 days when there is none. Any other media from such a user is ignored: nothing is
  sent and nothing changes.
\<close>

theorem payment_proof_accepted:
  assumes "\<not> is_banned (db b) u" and "get_partner (db b) u = None"
  shows "handle_media cfg b u Photo now sent =
           (SendPhotoToAdmin u (days_to_add (user_states b u)) #
              (if sent then [ReplyScreenshotReceived] else []),
            b\<lparr>user_states := (user_states b)(u := None)\<rparr>) \<and>
         ((\<forall>d. user_states b u \<noteq> Some (WAITING_PAYMENT d)) \<longrightarrow>
            days_to_add (user_states b u) = 30) \<and>
         (user_states b u = Some (WAITING_PAYMENT d) \<longrightarrow> days_to_add (user_states b u) = d) \<and>
         (m \<noteq> Photo \<longrightarrow> handle_media cfg b u m now sent = ([], b))"
  using assms
  by (auto simp: handle_media_def payment_proof_def days_to_add_def
      split: option.splits ustate.splits)

text \<open>The banned user 3 has no session; the photo is dropped without any call.\<close>

theorem banned_photo_ignored:
  "get_partner (db banned_bot) 3 = None \<and>
   fst (handle_media demo_cfg banned_bot 3 Photo demo_now True) = []"
  by (simp add: banned_bot_def idle_bot_def idle_db_def handle_media_def get_partner_def
      is_banned_def ban_user_def)

theorem payment_proof_accepted_witness:
  "fst (handle_media demo_cfg idle_bot 1 Photo demo_now True) =
     [SendPhotoToAdmin 1 30, ReplyScreenshotReceived] \<and>
   fst (handle_media demo_cfg (idle_bot\<lparr>user_states := [1 \<mapsto> WAITING_PAYMENT 90]\<rparr>) 1 Photo
          demo_now True) =
     [SendPhotoToAdmin 1 90, ReplyScreenshotReceived] \<and>
   fst (handle_media demo_cfg idle_bot 1 Video demo_now True) = []"
proof -
  have m: "Video \<noteq> Photo" by simp
  from payment_proof_accepted[OF idle_state(1) idle_state(2), of demo_cfg demo_now True 0 Video]
  have 1: "fst (handle_media demo_cfg idle_bot 1 Photo demo_now True) =
     [SendPhotoToAdmin 1 30, ReplyScreenshotReceived]"
    and 3: "fst (handle_media demo_cfg idle_bot 1 Video demo_now True) = []"
    using idle_state(3) m by simp_all
  have b: "\<not> is_banned (db (idle_bot\<lparr>user_states := [1 \<mapsto> WAITING_PAYMENT 90]\<rparr>)) 1"
    "get_partner (db (idle_bot\<lparr>user_states := [1 \<mapsto> WAITING_PAYMENT 90]\<rparr>)) 1 = None"
    using idle_state by simp_all
  from payment_proof_accepted[OF b, of demo_cfg demo_now True 90 Video]
  have 2: "fst (handle_media demo_cfg (idle_bot\<lparr>user_states := [1 \<mapsto> WAITING_PAYMENT 90]\<rparr>) 1
             Photo demo_now True) = [SendPhotoToAdmin 1 90, ReplyScreenshotReceived]"
    by simp
  from 1 2 3 show ?thesis by simp
qed

end
